theory Spec2Isabelle
  imports Main
begin

section \<open>Recursion into other modules (nuitka/importing/Recursion.py)\<close>

text \<open>
  The embedding follows the Python module function by function.  Python strings are
  \<open>string\<close>, \<open>None\<close> is \<open>None\<close> of an option type, a tuple is a pair.  The two
  process-wide dictionaries (the imported-modules cache of \<open>ImportCache\<close> and
  \<open>_recursion_decision_cache\<close>) and every call to a collaborator that has an
  effect (the Builder, the plugin recursion hook, the change signal, the module
  registry, the logger) live in an explicit \<open>state\<close>; the calls are appended to
  its \<open>trace\<close> in the order in which the code makes them.  An exception is a value of
  type \<open>error\<close>, returned together with the state reached when it was raised,
  since Python keeps every mutation made before a raise.  A Python name with a leading
  underscore, such as \<open>_recurseTo\<close>, is written \<open>priv_recurseTo\<close>.
\<close>

subsection \<open>Data model\<close>

type_synonym source_ref = string

text \<open>One entry of \<open>module.getUsedModules()\<close>; \<open>used_filename\<close> is \<open>None\<close> when
  the import was not resolved to a file.\<close>

record used_module =
  used_module_name :: string
  used_filename :: "string option"
  used_module_kind :: string
  used_finding :: string
  used_level :: int
  used_source_ref :: source_ref

text \<open>A module object as far as this file reads it.  \<open>module.module_name\<close> and
  \<open>module.getFullName()\<close> are the same attribute; \<open>module_repr\<close> is what
  \<open>"%s" % module\<close> prints.\<close>

record module_record =
  getFullName :: string
  getFilename :: string
  getSourceReference :: source_ref
  module_repr :: string
  isCompiledPythonPackage :: bool
  isUncompiledPythonPackage :: bool
  isCompiledPythonModule :: bool
  isUncompiledPythonModule :: bool
  isPythonExtensionModule :: bool
  getUsedModules :: "used_module list"

datatype error =
    NuitkaForbiddenImportEncounter string string
  | AssertionError
  | SystemExit
  | RecursionError
  | OtherError string

text \<open>The observable calls, in the order made.\<close>

datatype event =
    OnModuleRecursion string string string "string option" "source_ref option"
      \<comment> \<open>\<open>Plugins.onModuleRecursion(module_filename, module_name, module_kind,
          using_module_name, source_ref)\<close>\<close>
  | BuildModule string string bool
      \<comment> \<open>\<open>Building.buildModule(module_filename, module_name, is_extension)\<close>\<close>
  | SignalChange string source_ref string
      \<comment> \<open>\<open>signal_change("new_code", source_ref, reason)\<close>\<close>
  | AddUsedModule string string string string source_ref
      \<comment> \<open>\<open>addUsedModule(module, using_module, usage_tag, reason, source_ref)\<close>,
          the two modules by full name\<close>
  | AddRootModule string
  | WarnAbout string source_ref string int
      \<comment> \<open>\<open>Importing.warnAbout(importing, source_ref, module_name, level)\<close>\<close>
  | LogInfo string
  | LogWarning string
  | LogSysExit string

text \<open>A decision is the pair the Python returns: \<open>True\<close>, \<open>False\<close> or \<open>None\<close>,
  and the reason.\<close>

type_synonym decision = "bool option \<times> string"

type_synonym decision_key = "string \<times> string \<times> string \<times> bool"

record state =
  imported_modules :: "string \<times> string \<rightharpoonup> module_record"
  recursion_decision_cache :: "decision_key \<rightharpoonup> decision"
  trace :: "event list"

type_synonym 'a result = "(error + 'a) \<times> state"

subsection \<open>Options and collaborators\<close>

text \<open>\<open>nuitka.Options\<close>, fixed for the run.\<close>

record options =
  hasPythonFlagPackageMode :: bool
  shallMakeModule :: bool
  isStandaloneMode :: bool
  shallFollowStandardLibrary :: bool
  shallFollowAllImports :: bool
  shallFollowNoImports :: bool
  getShallFollowInNoCase :: "string list"
  getShallFollowModules :: "string list"
  isShowInclusion :: bool

text \<open>
  The functions this file imports from the rest of the compiler and from the Python
  library are parameters, collected in one record.  The hooks that can raise return
  \<open>error + _\<close>.  \<open>buildModule\<close> stands for \<open>Building.buildModule\<close> with the fixed
  flags of \<open>_recurseTo\<close>; it returns the module and \<open>is_added\<close>.
\<close>

record env =
  Options :: options
  onModuleEncounter :: "string \<Rightarrow> string \<Rightarrow> string \<Rightarrow> error + decision option"
  onModuleRecursion ::
    "string \<Rightarrow> string \<Rightarrow> string \<Rightarrow> string option \<Rightarrow> source_ref option \<Rightarrow> error option"
  considerImplicitImports :: "module_record \<Rightarrow> bool \<Rightarrow> state \<Rightarrow> unit result"
  buildModule :: "string \<Rightarrow> string \<Rightarrow> bool \<Rightarrow> module_record \<times> bool"
  isStandardLibraryPath :: "string \<Rightarrow> bool"
  isStandardLibraryNoAutoInclusionModule :: "string \<Rightarrow> bool"
  decideCompilationMode :: "string \<Rightarrow> string"
  decideInclusionFromPGO :: "string \<Rightarrow> string \<Rightarrow> bool option"
  matchesToShellPatterns :: "string \<Rightarrow> string list \<Rightarrow> bool \<times> string"
  getBasename :: "string \<Rightarrow> string"
  getPackageName :: "string \<Rightarrow> string option"
  getRootRuntimePackageValue :: "string option"
  getModuleNameAndKindFromFilename :: "string \<Rightarrow> string \<times> string option"
  makeModuleNameInPackage :: "string \<Rightarrow> string option \<Rightarrow> string"
  python_version :: nat
  isPackageDir :: "string \<Rightarrow> bool"
  listDir :: "string \<Rightarrow> (string \<times> string) list"
  iglob :: "string \<Rightarrow> string list"
  isdir :: "string \<Rightarrow> bool"
  isfile :: "string \<Rightarrow> bool"
  path_exists :: "string \<Rightarrow> bool"
  basename :: "string \<Rightarrow> string"
  dirname :: "string \<Rightarrow> string"
  abspath :: "string \<Rightarrow> string"

text \<open>Appending one call to the trace.\<close>

definition emit :: "event \<Rightarrow> state \<Rightarrow> state" where
  "emit e s = s\<lparr>trace := trace s @ [e]\<rparr>"

text \<open>\<open>s.endswith(suffix)\<close>; \<open>'%s'\<close> in a format string (the value between
  apostrophes); and \<open>"%s" % x\<close> for an \<open>x\<close> that may be \<open>None\<close>.\<close>

definition endswith :: "string \<Rightarrow> string \<Rightarrow> bool" where
  "endswith s suffix =
     (length suffix \<le> length s \<and> drop (length s - length suffix) s = suffix)"

definition quoted :: "string \<Rightarrow> string" where
  "quoted x = [CHR 0x27] @ x @ [CHR 0x27]"

definition str_of :: "string option \<Rightarrow> string" where
  "str_of x = (case x of None \<Rightarrow> ''None'' | Some v \<Rightarrow> v)"

subsection \<open>The decision engine\<close>

text \<open>\<open>_decideRecursion\<close>: the checks in the order of the source, the first that fires
  returns.  The profiling decision is \<open>None\<close> when the source does not ask for it;
  \<open>not_following\<close> is the tail of the function, reached from each branch that falls
  through.  The two pattern matches are pure, so binding the second before the first
  is tested changes nothing.\<close>

definition priv_decideRecursion ::
  "env \<Rightarrow> string \<Rightarrow> string \<Rightarrow> string \<Rightarrow> bool \<Rightarrow> error + decision" where
  "priv_decideRecursion E module_filename module_name module_kind extra_recursion =
    (if module_name = ''__main__'' then
       Inr (Some False, ''Main program is not followed to a second time.'')
     else if hasPythonFlagPackageMode (Options E) \<and> \<not> shallMakeModule (Options E)
          \<and> getBasename E module_name = ''__main__''
          \<and> getPackageName E module_name = getRootRuntimePackageValue E then
       Inr (Some False, ''Main program is already included in package mode.'')
     else
       case onModuleEncounter E module_filename module_name module_kind of
         Inl e \<Rightarrow> Inl e
       | Inr (Some plugin_decision) \<Rightarrow> Inr plugin_decision
       | Inr None \<Rightarrow>
          if module_kind = ''extension'' then
            (if isStandaloneMode (Options E) then
               Inr (Some True, ''Extension module needed for standalone mode.'')
             else
               Inr (Some False, ''Extension module cannot be inspected.''))
          else
            (let is_stdlib = isStandardLibraryPath E module_filename;
                 pgo_decision =
                   (if (\<not> is_stdlib \<or> shallFollowStandardLibrary (Options E))
                       \<and> decideCompilationMode E module_name = ''compiled''
                    then decideInclusionFromPGO E module_name module_kind
                    else None);
                 no_match = matchesToShellPatterns E module_name
                              (getShallFollowInNoCase (Options E));
                 any_match = matchesToShellPatterns E module_name
                               (getShallFollowModules (Options E));
                 not_following =
                   (if shallFollowNoImports (Options E) then
                      Inr (None, ''Instructed by user to not follow at all.'')
                    else
                      Inr (None,
                           ''Default behavior in non-standalone mode, not following without request.''))
             in
               (case pgo_decision of
                  Some d \<Rightarrow> Inr (Some d, ''PGO based decision'')
                | None \<Rightarrow>
                   if fst no_match then
                     Inr (Some False,
                          ''Module '' @ snd no_match @ '' instructed by user to not follow to.'')
                   else if fst any_match then
                     Inr (Some True,
                          ''Module '' @ snd any_match @ '' instructed by user to follow to.'')
                   else if extra_recursion then
                     Inr (Some True, ''Lives in plug-in directory.'')
                   else if is_stdlib \<and> shallFollowStandardLibrary (Options E) then
                     Inr (Some True, ''Instructed by user to follow to standard library.'')
                   else if shallFollowAllImports (Options E) then
                     (if is_stdlib then
                        (if isStandardLibraryNoAutoInclusionModule E module_name then
                           Inr (Some True,
                                ''Instructed by user to follow all modules, including non-automatic standard library modules.'')
                         else not_following)
                      else
                        Inr (Some True,
                             ''Instructed by user to follow to all non-standard library modules.''))
                   else not_following)))"

text \<open>\<open>decideRecursion\<close>: the memoising wrapper.  A raise of \<open>_decideRecursion\<close>
  leaves the cache as it was.\<close>

definition decideRecursion ::
  "env \<Rightarrow> string \<Rightarrow> string \<Rightarrow> string \<Rightarrow> bool \<Rightarrow> state \<Rightarrow> decision result" where
  "decideRecursion E module_filename module_name module_kind extra_recursion s =
    (let key = (module_filename, module_name, module_kind, extra_recursion) in
     case recursion_decision_cache s key of
       Some d \<Rightarrow> (Inr d, s)
     | None \<Rightarrow>
        (case priv_decideRecursion E module_filename module_name module_kind extra_recursion of
           Inl e \<Rightarrow> (Inl e, s)
         | Inr d \<Rightarrow>
            (Inr d, s\<lparr>recursion_decision_cache := (recursion_decision_cache s)(key \<mapsto> d)\<rparr>)))"

subsection \<open>The identity cache and the recursion driver\<close>

text \<open>
  Modelled from the spec: \<open>ImportCache\<close> is not part of this file.  The spec has the
  Identity Cache map a module's (name, canonical file) identity to its record, two
  paths denoting the same file when, after resolving a package's init file to its
  containing directory, their absolute forms are equal.  \<open>module_identity\<close> is that
  key; a miss is the \<open>KeyError\<close> that \<open>recurseTo\<close> turns into \<open>None\<close>.
\<close>

definition canonical_path :: "env \<Rightarrow> string \<Rightarrow> string" where
  "canonical_path E path =
     abspath E (if basename E path = ''__init__.py'' then dirname E path else path)"

definition module_identity :: "env \<Rightarrow> string \<Rightarrow> string \<Rightarrow> string \<times> string" where
  "module_identity E module_name module_filename =
     (module_name, canonical_path E module_filename)"

definition getImportedModuleByNameAndPath ::
  "env \<Rightarrow> state \<Rightarrow> string \<Rightarrow> string \<Rightarrow> module_record option" where
  "getImportedModuleByNameAndPath E s module_name module_filename =
     imported_modules s (module_identity E module_name module_filename)"

definition addImportedModule :: "env \<Rightarrow> module_record \<Rightarrow> state \<Rightarrow> state" where
  "addImportedModule E m s =
     s\<lparr>imported_modules :=
         (imported_modules s)(module_identity E (getFullName m) (getFilename m) \<mapsto> m)\<rparr>"

text \<open>\<open>_recurseTo\<close>: build, then register in the cache.\<close>

definition priv_recurseTo ::
  "env \<Rightarrow> string \<Rightarrow> string \<Rightarrow> string \<Rightarrow> state \<Rightarrow> (module_record \<times> bool) \<times> state" where
  "priv_recurseTo E module_name module_filename module_kind s =
     (let built = buildModule E module_filename module_name (module_kind = ''extension'');
          s1 = emit (BuildModule module_filename module_name (module_kind = ''extension'')) s
      in (built, addImportedModule E (fst built) s1))"

text \<open>\<open>recurseTo\<close>.  The argument \<open>signal_change\<close> says whether a signal function
  was passed (\<open>signal_change is not None\<close>); calling it is the event
  \<open>SignalChange\<close>.\<close>

definition recurseTo ::
  "env \<Rightarrow> bool \<Rightarrow> string \<Rightarrow> string \<Rightarrow> string \<Rightarrow> string option \<Rightarrow> source_ref option
     \<Rightarrow> string \<Rightarrow> state \<Rightarrow> module_record result" where
  "recurseTo E signal_change module_name module_filename module_kind using_module_name
       source_ref reason s =
     (case getImportedModuleByNameAndPath E s module_name module_filename of
        Some m \<Rightarrow> (Inr m, s)
      | None \<Rightarrow>
         (let s1 = emit (OnModuleRecursion module_filename module_name module_kind
                           using_module_name source_ref) s
          in case onModuleRecursion E module_filename module_name module_kind
                    using_module_name source_ref of
               Some e \<Rightarrow> (Inl e, s1)
             | None \<Rightarrow>
                (let r = priv_recurseTo E module_name module_filename module_kind s1;
                     m = fst (fst r);
                     added_flag = snd (fst r)
                 in (Inr m,
                     if added_flag \<and> signal_change
                     then emit (SignalChange ''new_code'' (getSourceReference m) reason) (snd r)
                     else snd r))))"

text \<open>\<open>isSameModulePath\<close>.\<close>

definition isSameModulePath :: "env \<Rightarrow> string \<Rightarrow> string \<Rightarrow> bool" where
  "isSameModulePath E path1 path2 =
     (let path1 = (if basename E path1 = ''__init__.py'' then dirname E path1 else path1);
          path2 = (if basename E path2 = ''__init__.py'' then dirname E path2 else path2)
      in abspath E path1 = abspath E path2)"

subsection \<open>The used-module consumer\<close>

text \<open>
  Modelled from the spec: \<open>recursion_logger.sysexit\<close> is not part of this file.  The
  spec has it print the message and end the process with a non-zero status: the
  message is logged and \<open>SystemExit\<close> raised, which no handler of this file catches.
\<close>

definition sysexit :: "string \<Rightarrow> state \<Rightarrow> 'a result" where
  "sysexit message s = (Inl SystemExit, emit (LogSysExit message) s)"

text \<open>The body of the \<open>try\<close> of \<open>considerUsedModules\<close> for one edge whose filename
  is not \<open>None\<close>.  \<open>if decision:\<close> holds for \<open>True\<close> only.\<close>

definition considerUsedModules_try ::
  "env \<Rightarrow> module_record \<Rightarrow> used_module \<Rightarrow> string \<Rightarrow> bool \<Rightarrow> state \<Rightarrow> unit result" where
  "considerUsedModules_try E m used filename signal_change s =
     (case decideRecursion E filename (used_module_name used) (used_module_kind used) False s of
        (Inl e, s1) \<Rightarrow> (Inl e, s1)
      | (Inr (decision, reason), s1) \<Rightarrow>
         if decision = Some True then
           (case recurseTo E signal_change (used_module_name used) filename
                   (used_module_kind used) (Some (getFullName m))
                   (Some (used_source_ref used)) reason s1 of
              (Inl e, s2) \<Rightarrow> (Inl e, s2)
            | (Inr new_module, s2) \<Rightarrow>
               (Inr (),
                emit (AddUsedModule (getFullName new_module) (getFullName m) ''import'' reason
                        (used_source_ref used)) s2))
         else (Inr (), s1))"

text \<open>The first statement of the loop body: the warning about an import that was
  not found.\<close>

definition warn_not_found :: "module_record \<Rightarrow> used_module \<Rightarrow> state \<Rightarrow> state" where
  "warn_not_found m used s =
     (if used_finding used = ''not-found''
      then emit (WarnAbout (getFullName m) (used_source_ref used)
                   (used_module_name used) (used_level used)) s
      else s)"

text \<open>The message of the fatal exit for a forbidden import met on an edge, and the
  one for a forbidden implicit import.\<close>

definition forbidden_import_message ::
  "string \<Rightarrow> string \<Rightarrow> module_record \<Rightarrow> used_module \<Rightarrow> string" where
  "forbidden_import_message forbidden avoided m used =
     ''Error, forbidden import of '' @ quoted forbidden
       @ '' (intending to avoid '' @ quoted avoided
       @ '') in module '' @ quoted (getFullName m)
       @ '' at '' @ quoted (used_source_ref used)
       @ '' encountered.''"

definition forbidden_implicit_message :: "string \<Rightarrow> string \<Rightarrow> module_record \<Rightarrow> string" where
  "forbidden_implicit_message forbidden avoided m =
     ''Error, forbidden import of '' @ quoted forbidden
       @ '' (intending to avoid '' @ quoted avoided
       @ '') done implicitly by module '' @ quoted (getFullName m) @ ''.''"

text \<open>The loop over \<open>module.getUsedModules()\<close>.\<close>

fun considerUsedModules_loop ::
  "env \<Rightarrow> module_record \<Rightarrow> used_module list \<Rightarrow> bool \<Rightarrow> state \<Rightarrow> unit result" where
  "considerUsedModules_loop E m [] signal_change s = (Inr (), s)"
| "considerUsedModules_loop E m (used # rest) signal_change s =
     (let s1 = warn_not_found m used s
      in case used_filename used of
           None \<Rightarrow> considerUsedModules_loop E m rest signal_change s1
         | Some filename \<Rightarrow>
            (case considerUsedModules_try E m used filename signal_change s1 of
               (Inl (NuitkaForbiddenImportEncounter forbidden avoided), s2) \<Rightarrow>
                 sysexit (forbidden_import_message forbidden avoided m used) s2
             | (Inl e, s2) \<Rightarrow> (Inl e, s2)
             | (Inr u, s2) \<Rightarrow> considerUsedModules_loop E m rest signal_change s2))"

text \<open>\<open>considerUsedModules\<close>: the loop, then the plugins' implicit imports.\<close>

definition considerUsedModules :: "env \<Rightarrow> module_record \<Rightarrow> bool \<Rightarrow> state \<Rightarrow> unit result" where
  "considerUsedModules E m signal_change s =
     (case considerUsedModules_loop E m (getUsedModules m) signal_change s of
        (Inl e, s1) \<Rightarrow> (Inl e, s1)
      | (Inr u, s1) \<Rightarrow>
         (case considerImplicitImports E m signal_change s1 of
            (Inl (NuitkaForbiddenImportEncounter forbidden avoided), s2) \<Rightarrow>
              sysexit (forbidden_implicit_message forbidden avoided m) s2
          | (Inl e, s2) \<Rightarrow> (Inl e, s2)
          | (Inr v, s2) \<Rightarrow> (Inr (), s2)))"

subsection \<open>The filesystem and pattern walker\<close>

text \<open>
  \<open>checkPluginSinglePath\<close> and \<open>_addIncludedModule\<close> call each other, once per
  level of the directory tree, and nothing in the code bounds the nesting.  Their
  straight-line parts are definitions of their own, so that the recursive functions
  below hold the calls only.

  \<open>checkPluginSinglePath_head\<close> is \<open>checkPluginSinglePath\<close> up to its call of
  \<open>_addIncludedModule\<close>: it returns the module to hand over, or \<open>None\<close> when the
  function ends without that call.  \<open>recurseTo\<close> always returns a module object
  here, so the \<open>else\<close> of \<open>if module:\<close> has no branch.
\<close>

definition checkPluginSinglePath_head ::
  "env \<Rightarrow> string \<Rightarrow> string option \<Rightarrow> state \<Rightarrow> module_record option result" where
  "checkPluginSinglePath_head E plugin_filename module_package s =
     (let plugin_filename = abspath E plugin_filename;
          s1 = (if isShowInclusion (Options E)
                then emit (LogInfo (''Checking detail plug-in path '' @ quoted plugin_filename
                                    @ '' '' @ quoted (str_of module_package) @ '':'')) s
                else s);
          name_and_kind = getModuleNameAndKindFromFilename E plugin_filename;
          module_name = makeModuleNameInPackage E (fst name_and_kind) module_package;
          s2 = (if snd name_and_kind = Some ''extension'' \<and> \<not> isStandaloneMode (Options E)
                then emit (LogWarning
                       (''Cannot include extension module '' @ quoted module_name
                        @ '' unless using at least standalone mode, where they would be copied. In this mode, extension modules are not part of the compiled result, and therefore asking to include them makes no sense.''
                        @ [CHR 0x0A])) s1
                else s1)
      in case snd name_and_kind of
           None \<Rightarrow> (Inr None, s2)
         | Some module_kind \<Rightarrow>
            (case decideRecursion E plugin_filename module_name module_kind True s2 of
               (Inl e, s3) \<Rightarrow> (Inl e, s3)
             | (Inr (decision, reason), s3) \<Rightarrow>
                if decision = Some True then
                  (case recurseTo E False module_name plugin_filename module_kind None None
                          reason s3 of
                     (Inl e, s4) \<Rightarrow> (Inl e, s4)
                   | (Inr m, s4) \<Rightarrow> (Inr (Some m), s4))
                else
                  (Inr None,
                   emit (LogWarning (''Not allowed to include module '' @ quoted module_name
                                     @ '' due to '' @ quoted reason @ ''.'')) s3)))"

text \<open>\<open>priv_addIncludedModule_head\<close> is \<open>_addIncludedModule\<close> up to its \<open>for\<close>
  loop: it returns the directory to list when the module is a package, and \<open>None\<close>
  for the other kinds, which end there.\<close>

definition priv_addIncludedModule_head ::
  "env \<Rightarrow> module_record \<Rightarrow> state \<Rightarrow> string option result" where
  "priv_addIncludedModule_head E m s =
     (let s1 = (if isShowInclusion (Options E)
                then emit (LogInfo (''Included '' @ quoted (getFullName m) @ '' as ''
                                    @ quoted (module_repr m) @ ''.'')) s
                else s);
          s2 = addImportedModule E m s1
      in if isCompiledPythonPackage m \<or> isUncompiledPythonPackage m then
           (let package_filename = getFilename m in
            if isdir E package_filename \<and> \<not> 0x300 \<le> python_version E then
              (Inl AssertionError, s2)
            else
              (let package_dir = (if isdir E package_filename then package_filename
                                  else dirname E package_filename);
                   s3 = (if isdir E package_filename then s2
                         else emit (AddRootModule (getFullName m)) s2);
                   s4 = (if isShowInclusion (Options E)
                         then emit (LogInfo (''Package directory '' @ quoted package_dir
                                             @ ''.'')) s3
                         else s3)
               in (Inr (Some package_dir), s4)))
         else if isCompiledPythonModule m \<or> isUncompiledPythonModule m then
           (Inr None, emit (AddRootModule (getFullName m)) s2)
         else if isPythonExtensionModule m then
           (Inr None, if isStandaloneMode (Options E)
                      then emit (AddRootModule (getFullName m)) s2 else s2)
         else (Inl AssertionError, s2))"

text \<open>The test of the loop of \<open>_addIncludedModule\<close> on one directory entry: whether
  it is handed to \<open>checkPluginSinglePath\<close> (by the \<open>if\<close> or by the \<open>elif\<close>).\<close>

definition sub_path_checked :: "env \<Rightarrow> string \<times> string \<Rightarrow> bool" where
  "sub_path_checked E entry =
     (case entry of (sub_path, sub_filename) \<Rightarrow>
        if sub_filename = ''__init__.py'' \<or> sub_filename = ''__pycache__'' then False
        else if isPackageDir E sub_path \<and> \<not> path_exists E (sub_path @ ''.py'') then True
        else if endswith sub_path ''.py'' then True
        else False)"

text \<open>
  The recursion.  The first argument is the number of nested
  \<open>checkPluginSinglePath\<close> calls the interpreter still allows; with none left the
  call is Python's \<open>RecursionError\<close>.  The third function is the \<open>for\<close> loop of
  \<open>_addIncludedModule\<close> over the rest of the directory listing.
\<close>

fun checkPluginSinglePath ::
      "nat \<Rightarrow> env \<Rightarrow> string \<Rightarrow> string option \<Rightarrow> state \<Rightarrow> unit result"
  and priv_addIncludedModule ::
      "nat \<Rightarrow> env \<Rightarrow> module_record \<Rightarrow> state \<Rightarrow> unit result"
  and priv_addIncludedModule_loop ::
      "nat \<Rightarrow> env \<Rightarrow> module_record \<Rightarrow> (string \<times> string) list \<Rightarrow> state \<Rightarrow> unit result"
where
  "checkPluginSinglePath 0 E plugin_filename module_package s = (Inl RecursionError, s)"
| "checkPluginSinglePath (Suc depth) E plugin_filename module_package s =
     (case checkPluginSinglePath_head E plugin_filename module_package s of
        (Inl e, s1) \<Rightarrow> (Inl e, s1)
      | (Inr None, s1) \<Rightarrow> (Inr (), s1)
      | (Inr (Some m), s1) \<Rightarrow> priv_addIncludedModule depth E m s1)"
| "priv_addIncludedModule depth E m s =
     (case priv_addIncludedModule_head E m s of
        (Inl e, s1) \<Rightarrow> (Inl e, s1)
      | (Inr None, s1) \<Rightarrow> (Inr (), s1)
      | (Inr (Some package_dir), s1) \<Rightarrow>
          priv_addIncludedModule_loop depth E m (listDir E package_dir) s1)"
| "priv_addIncludedModule_loop depth E m [] s = (Inr (), s)"
| "priv_addIncludedModule_loop depth E m (entry # rest) s =
     (if sub_path_checked E entry then
        (case checkPluginSinglePath depth E (fst entry) (Some (getFullName m)) s of
           (Inl e, s1) \<Rightarrow> (Inl e, s1)
         | (Inr u, s1) \<Rightarrow> priv_addIncludedModule_loop depth E m rest s1)
      else priv_addIncludedModule_loop depth E m rest s)"

text \<open>\<open>checkPluginFilenamePattern\<close>: the loop over the matches of the pattern, with
  the flag \<open>found\<close>, and the function itself.\<close>

fun checkPluginFilenamePattern_loop ::
  "nat \<Rightarrow> env \<Rightarrow> string list \<Rightarrow> bool \<Rightarrow> state \<Rightarrow> bool result" where
  "checkPluginFilenamePattern_loop depth E [] found s = (Inr found, s)"
| "checkPluginFilenamePattern_loop depth E (filename # rest) found s =
     (if endswith filename ''.pyc'' then
        checkPluginFilenamePattern_loop depth E rest found s
      else if \<not> isfile E filename then
        checkPluginFilenamePattern_loop depth E rest found s
      else
        (case checkPluginSinglePath depth E filename None s of
           (Inl e, s1) \<Rightarrow> (Inl e, s1)
         | (Inr u, s1) \<Rightarrow> checkPluginFilenamePattern_loop depth E rest True s1))"

definition checkPluginFilenamePattern :: "nat \<Rightarrow> env \<Rightarrow> string \<Rightarrow> state \<Rightarrow> unit result" where
  "checkPluginFilenamePattern depth E pattern s =
     (let s1 = (if isShowInclusion (Options E)
                then emit (LogInfo (''Checking plug-in pattern '' @ quoted pattern @ '':'')) s
                else s)
      in if isdir E pattern then (Inl AssertionError, s1)
         else
           (case checkPluginFilenamePattern_loop depth E (iglob E pattern) False s1 of
              (Inl e, s2) \<Rightarrow> (Inl e, s2)
            | (Inr found, s2) \<Rightarrow>
               (Inr (),
                if \<not> found
                then emit (LogWarning (''Didn't match any files against pattern ''
                                       @ quoted pattern @ ''.'')) s2
                else s2)))"

subsection \<open>Observations on a state\<close>

text \<open>The invocations of the Builder for one identity, and the invocations of the
  change signal, as recorded in the trace.\<close>

definition is_build_of :: "env \<Rightarrow> string \<times> string \<Rightarrow> event \<Rightarrow> bool" where
  "is_build_of E k e =
     (case e of BuildModule module_filename module_name x \<Rightarrow>
                  module_identity E module_name module_filename = k
              | _ \<Rightarrow> False)"

definition build_count :: "env \<Rightarrow> string \<times> string \<Rightarrow> state \<Rightarrow> nat" where
  "build_count E k s = length (filter (is_build_of E k) (trace s))"

definition is_signal :: "event \<Rightarrow> bool" where
  "is_signal e = (case e of SignalChange tag ref reason \<Rightarrow> True | _ \<Rightarrow> False)"

definition signals :: "state \<Rightarrow> event list" where
  "signals s = filter is_signal (trace s)"

text \<open>What one step of the run may do to the builds of the identity \<open>k\<close>: if
  \<open>k\<close> is cached it stays cached and is not built; if it is not, it is either not
  built, or built once and cached from then on.\<close>

definition built_at_most_once :: "env \<Rightarrow> string \<times> string \<Rightarrow> state \<Rightarrow> state \<Rightarrow> bool" where
  "built_at_most_once E k s s' =
     (if imported_modules s k = None
      then build_count E k s' = build_count E k s
           \<or> (build_count E k s' = build_count E k s + 1 \<and> imported_modules s' k \<noteq> None)
      else imported_modules s' k \<noteq> None \<and> build_count E k s' = build_count E k s)"

text \<open>The Builder's contract towards the cache: the module it returns for a request
  has the identity that was requested.\<close>

definition builder_ok :: "env \<Rightarrow> bool" where
  "builder_ok E =
     (\<forall>f n x. module_identity E (getFullName (fst (buildModule E f n x)))
                               (getFilename (fst (buildModule E f n x)))
              = module_identity E n f)"

text \<open>The decision cache holds results of \<open>_decideRecursion\<close> only, as it does when
  \<open>decideRecursion\<close> alone writes it.\<close>

definition decision_cache_ok :: "env \<Rightarrow> state \<Rightarrow> bool" where
  "decision_cache_ok E s =
     (\<forall>f n k x d. recursion_decision_cache s (f, n, k, x) = Some d
        \<longrightarrow> priv_decideRecursion E f n k x = Inr d)"

text \<open>The warnings of \<open>checkPluginFilenamePattern\<close> about a pattern without
  match, as recorded in the trace; the events that the walker below
  \<open>checkPluginSinglePath\<close> can emit are neither such warnings nor signals.\<close>

definition is_no_match_warning :: "event \<Rightarrow> bool" where
  "is_no_match_warning e =
     (case e of LogWarning message \<Rightarrow> take 12 message = ''Didn't match'' | _ \<Rightarrow> False)"

definition walker_event :: "event \<Rightarrow> bool" where
  "walker_event e = (\<not> is_signal e \<and> \<not> is_no_match_warning e)"

text \<open>The state \<open>s'\<close> is reached from \<open>s\<close> by emitting events that satisfy
  \<open>P\<close>.\<close>

definition trace_extended :: "(event \<Rightarrow> bool) \<Rightarrow> state \<Rightarrow> state \<Rightarrow> bool" where
  "trace_extended P s s' = (\<exists>events. trace s' = trace s @ events \<and> list_all P events)"

text \<open>Single-path checks of a list of paths in order, up to the first that raises.\<close>

fun check_each :: "nat \<Rightarrow> env \<Rightarrow> string option \<Rightarrow> string list \<Rightarrow> state \<Rightarrow> unit result" where
  "check_each depth E module_package [] s = (Inr (), s)"
| "check_each depth E module_package (path # paths) s =
     (case checkPluginSinglePath depth E path module_package s of
        (Inl e, s1) \<Rightarrow> (Inl e, s1)
      | (Inr u, s1) \<Rightarrow> check_each depth E module_package paths s1)"


definition usable_matches :: "env \<Rightarrow> string list \<Rightarrow> string list" where
  "usable_matches E filenames =
     filter (\<lambda>filename. \<not> endswith filename ''.pyc'' \<and> isfile E filename) filenames"

text \<open>The number of warnings about a pattern without match.\<close>

definition no_match_warnings :: "state \<Rightarrow> nat" where
  "no_match_warnings s = length (filter is_no_match_warning (trace s))"

subsection \<open>What it means that a package tree is pulled in\<close>

text \<open>
  The tests of \<open>_addIncludedModule\<close> on a module: whether it is a package, the
  directory it lists then, whether it is of one of the kinds the function knows, and
  whether the function registers it as a root.
\<close>

definition is_package :: "module_record \<Rightarrow> bool" where
  "is_package m = (isCompiledPythonPackage m \<or> isUncompiledPythonPackage m)"

definition package_dir :: "env \<Rightarrow> module_record \<Rightarrow> string" where
  "package_dir E m =
     (if isdir E (getFilename m) then getFilename m else dirname E (getFilename m))"


definition registers_root :: "env \<Rightarrow> module_record \<Rightarrow> bool" where
  "registers_root E m =
     (if is_package m then \<not> isdir E (getFilename m)
      else if isCompiledPythonModule m \<or> isUncompiledPythonModule m then True
      else isStandaloneMode (Options E))"

text \<open>The name and the kind that \<open>checkPluginSinglePath\<close> computes for a path
  under an enclosing package.\<close>

definition child_name :: "env \<Rightarrow> string \<Rightarrow> string option \<Rightarrow> string" where
  "child_name E p pkg =
     makeModuleNameInPackage E (fst (getModuleNameAndKindFromFilename E (abspath E p))) pkg"

definition child_kind :: "env \<Rightarrow> string \<Rightarrow> string option" where
  "child_kind E p = snd (getModuleNameAndKindFromFilename E (abspath E p))"





text \<open>
  In the state \<open>s\<close> the path \<open>p\<close>, checked under the enclosing package
  \<open>pkg\<close>, is pulled in: it has no module kind; or the decision engine, asked with
  the explicit-request flag, does not include it; or it includes it, the module is in
  the identity cache under the identity of the path, it is registered as a root when
  \<open>_addIncludedModule\<close> registers such a module, and, when it is a package, every
  entry of its directory that the loop hands on is pulled in under the package's name.
\<close>

inductive pulled_in :: "env \<Rightarrow> state \<Rightarrow> string \<Rightarrow> string option \<Rightarrow> bool"
  for E :: env and s :: state where
  not_a_module:
    "child_kind E p = None \<Longrightarrow> pulled_in E s p pkg"
| not_included:
    "child_kind E p = Some kind \<Longrightarrow>
     priv_decideRecursion E (abspath E p) (child_name E p pkg) kind True = Inr (decision, reason) \<Longrightarrow>
     decision \<noteq> Some True \<Longrightarrow> pulled_in E s p pkg"
| included:
    "child_kind E p = Some kind \<Longrightarrow>
     priv_decideRecursion E (abspath E p) (child_name E p pkg) kind True = Inr (Some True, reason) \<Longrightarrow>
     imported_modules s (module_identity E (child_name E p pkg) (abspath E p)) = Some m \<Longrightarrow>
     (registers_root E m \<longrightarrow> AddRootModule (getFullName m) \<in> set (trace s)) \<Longrightarrow>
     (is_package m \<longrightarrow>
        (\<forall>entry \<in> set (listDir E (package_dir E m)).
           sub_path_checked E entry \<longrightarrow> pulled_in E s (fst entry) (Some (getFullName m)))) \<Longrightarrow>
     pulled_in E s p pkg"



subsection \<open>A concrete project\<close>

text \<open>
  An environment on which the definitions can be run: a project under \<open>/src\<close> with
  a package \<open>pkg\<close> (an init file, a module, a data file, a bytecode directory and a
  sub-package) and a single file \<open>plug.py\<close>; paths are absolute, so \<open>abspath\<close>
  returns its argument; \<open>basename\<close> and \<open>dirname\<close> split at the last slash; a
  pattern matches a name equal to it; the plugins forbid the module \<open>banned\<close>.
\<close>

definition posix_basename :: "string \<Rightarrow> string" where
  "posix_basename p = rev (takeWhile (\<lambda>c. c \<noteq> CHR ''/'') (rev p))"

definition posix_dirname :: "string \<Rightarrow> string" where
  "posix_dirname p =
     (let head = rev (dropWhile (\<lambda>c. c \<noteq> CHR ''/'') (rev p));
          stripped = rev (dropWhile (\<lambda>c. c = CHR ''/'') (rev head))
      in if stripped = [] then head else stripped)"

definition demo_dirs :: "string list" where
  "demo_dirs = [''/src/pkg'', ''/src/pkg/sub'', ''/src/pkg/__pycache__'']"

definition demo_files :: "string list" where
  "demo_files = [''/src/plug.py'', ''/src/pkg/__init__.py'', ''/src/pkg/data.txt'',
                 ''/src/pkg/mod.py'', ''/src/pkg/sub/__init__.py'', ''/src/pkg/sub/leaf.py'',
                 ''/src/b.py'', ''/src/banned.py'', ''/src/secret.py'', ''/src/ext.so'']"

definition demo_listDir :: "string \<Rightarrow> (string \<times> string) list" where
  "demo_listDir d =
     (if d = ''/src/pkg'' then
        [(''/src/pkg/__init__.py'', ''__init__.py''), (''/src/pkg/__pycache__'', ''__pycache__''),
         (''/src/pkg/data.txt'', ''data.txt''), (''/src/pkg/mod.py'', ''mod.py''),
         (''/src/pkg/sub'', ''sub'')]
      else if d = ''/src/pkg/sub'' then
        [(''/src/pkg/sub/__init__.py'', ''__init__.py''), (''/src/pkg/sub/leaf.py'', ''leaf.py'')]
      else [])"

definition demo_options :: options where
  "demo_options =
     \<lparr>hasPythonFlagPackageMode = False, shallMakeModule = False, isStandaloneMode = False,
      shallFollowStandardLibrary = False, shallFollowAllImports = False,
      shallFollowNoImports = False, getShallFollowInNoCase = [''secret''],
      getShallFollowModules = [''secret'', ''wanted''], isShowInclusion = True\<rparr>"

definition demo_build :: "string \<Rightarrow> string \<Rightarrow> bool \<Rightarrow> module_record \<times> bool" where
  "demo_build f n x =
     (\<lparr>getFullName = n,
       getFilename = (if f \<in> set demo_dirs then f @ ''/__init__.py'' else f),
       getSourceReference = f @ '':1'',
       module_repr = ''<module '' @ n @ ''>'',
       isCompiledPythonPackage = (f \<in> set demo_dirs),
       isUncompiledPythonPackage = False,
       isCompiledPythonModule = (f \<notin> set demo_dirs \<and> \<not> x),
       isUncompiledPythonModule = False,
       isPythonExtensionModule = (f \<notin> set demo_dirs \<and> x),
       getUsedModules = []\<rparr>, True)"

definition demo_name_and_kind :: "string \<Rightarrow> string \<times> string option" where
  "demo_name_and_kind p =
     (if endswith p ''.py'' then (take (length (posix_basename p) - 3) (posix_basename p), Some ''py'')
      else if endswith p ''.so'' then
        (take (length (posix_basename p) - 3) (posix_basename p), Some ''extension'')
      else if p \<in> set demo_dirs then (posix_basename p, Some ''py'')
      else ([], None))"

definition demo_env :: env where
  "demo_env =
     \<lparr>Options = demo_options,
      onModuleEncounter =
        (\<lambda>f n k. if n = ''banned''
                  then Inl (NuitkaForbiddenImportEncounter ''banned'' ''heavy'')
                  else Inr None),
      onModuleRecursion = (\<lambda>f n k u r. None),
      considerImplicitImports = (\<lambda>m signal_change s. (Inr (), s)),
      buildModule = demo_build,
      isStandardLibraryPath = (\<lambda>f. take 5 f = ''/lib/''),
      isStandardLibraryNoAutoInclusionModule = (\<lambda>n. False),
      decideCompilationMode = (\<lambda>n. ''compiled''),
      decideInclusionFromPGO = (\<lambda>n k. None),
      matchesToShellPatterns =
        (\<lambda>n patterns. if n \<in> set patterns then (True, ''is exact match of '' @ quoted n)
                        else (False, ''None'')),
      getBasename = (\<lambda>n. rev (takeWhile (\<lambda>c. c \<noteq> CHR ''.'') (rev n))),
      getPackageName =
        (\<lambda>n. if CHR ''.'' \<in> set n
              then Some (rev (tl (dropWhile (\<lambda>c. c \<noteq> CHR ''.'') (rev n))))
              else None),
      getRootRuntimePackageValue = None,
      getModuleNameAndKindFromFilename = demo_name_and_kind,
      makeModuleNameInPackage =
        (\<lambda>n package. case package of None \<Rightarrow> n | Some p \<Rightarrow> p @ ''.'' @ n),
      python_version = 0x3A0,
      isPackageDir = (\<lambda>p. p = ''/src/pkg'' \<or> p = ''/src/pkg/sub''),
      listDir = demo_listDir,
      iglob =
        (\<lambda>pattern. if pattern = ''/src/plug*'' then [''/src/plug.py'', ''/src/plug.pyc'']
                    else if pattern = ''/src/pkg*'' then [''/src/pkg'']
                    else []),
      isdir = (\<lambda>p. p \<in> set demo_dirs),
      isfile = (\<lambda>p. p \<in> set demo_files),
      path_exists = (\<lambda>p. p \<in> set demo_dirs \<or> p \<in> set demo_files),
      basename = posix_basename,
      dirname = posix_dirname,
      abspath = (\<lambda>p. p)\<rparr>"

definition demo_state :: state where
  "demo_state = \<lparr>imported_modules = Map.empty, recursion_decision_cache = Map.empty,
                 trace = []\<rparr>"

text \<open>Variants of the project's options.\<close>

definition nofollow_env :: env where
  "nofollow_env = demo_env\<lparr>Options := demo_options\<lparr>shallFollowNoImports := True\<rparr>\<rparr>"

definition followall_env :: env where
  "followall_env = demo_env\<lparr>Options := demo_options\<lparr>shallFollowAllImports := True\<rparr>\<rparr>"

definition standalone_env :: env where
  "standalone_env = demo_env\<lparr>Options := demo_options\<lparr>isStandaloneMode := True\<rparr>\<rparr>"

definition quiet_env :: env where
  "quiet_env = demo_env\<lparr>Options := demo_options\<lparr>isShowInclusion := False\<rparr>\<rparr>"

text \<open>A main module of the project with given import edges; an edge to the module
  \<open>n\<close> resolved to \<open>/src/n.py\<close>.\<close>

definition demo_edge :: "string \<Rightarrow> used_module" where
  "demo_edge n =
     \<lparr>used_module_name = n, used_filename = Some (''/src/'' @ n @ ''.py''),
      used_module_kind = ''py'', used_finding = ''absolute'', used_level = 0,
      used_source_ref = ''/src/main.py:'' @ n\<rparr>"

definition demo_main :: "used_module list \<Rightarrow> module_record" where
  "demo_main edges =
     (fst (demo_build ''/src/main.py'' ''main'' False))\<lparr>getUsedModules := edges\<rparr>"

text \<open>Edges of which the second is forbidden by the plugins, and an environment
  whose implicit-imports pass raises the forbidden-import signal.\<close>

definition forbid_edges :: "used_module list" where
  "forbid_edges = [demo_edge ''wanted'', demo_edge ''banned'', demo_edge ''later'']"

definition implicit_forbid_env :: env where
  "implicit_forbid_env =
     demo_env\<lparr>considerImplicitImports :=
       (\<lambda>m signal_change s. (Inl (NuitkaForbiddenImportEncounter ''banned'' ''heavy''), s))\<rparr>"

text \<open>The warnings about imports that were not found, as recorded in the trace.\<close>

definition is_warn_about :: "event \<Rightarrow> bool" where
  "is_warn_about e = (case e of WarnAbout importing ref n level \<Rightarrow> True | _ \<Rightarrow> False)"

text \<open>Three edges: one marked not-found that carries a filename, one without a
  filename and with another finding, one without a filename and marked not-found.\<close>

definition unresolved_edges :: "used_module list" where
  "unresolved_edges =
     [(demo_edge ''wanted'')\<lparr>used_finding := ''not-found''\<rparr>,
      (demo_edge ''gone'')\<lparr>used_filename := None, used_finding := ''built-in''\<rparr>,
      (demo_edge ''lost'')\<lparr>used_filename := None, used_finding := ''not-found''\<rparr>]"






section \<open>Properties\<close>

subsection \<open>The decision cache\<close>

lemma decideRecursion_fst:
  "decision_cache_ok E s \<Longrightarrow>
     fst (decideRecursion E f n k x s) = priv_decideRecursion E f n k x"
  by (auto simp: decideRecursion_def decision_cache_ok_def Let_def
           split: option.splits sum.splits)


lemma decideRecursion_trace [simp]:
  "trace (snd (decideRecursion E f n k x s)) = trace s"
  by (auto simp: decideRecursion_def Let_def split: option.splits sum.splits)

lemma decideRecursion_imported [simp]:
  "imported_modules (snd (decideRecursion E f n k x s)) = imported_modules s"
  by (auto simp: decideRecursion_def Let_def split: option.splits sum.splits)

lemma demo_cache_ok: "decision_cache_ok E demo_state"
  by (simp add: decision_cache_ok_def demo_state_def)

subsection \<open>Precedence of the never-follow patterns\<close>

text \<open>
  Claim C2.  A module name that matches a never-follow pattern, and for which the
  evaluation reaches the pattern checks (it is not \<open>__main__\<close>, the package-mode
  check does not fire, the plugins render no decision, it is not an extension module,
  and profiling renders no decision where it is asked), is excluded, with the reason
  built from the never-follow match.  Nothing is assumed about the always-follow
  patterns or the explicit-request flag: the never-follow test comes first.
\<close>

theorem never_follow_wins:
  assumes "module_name \<noteq> ''__main__''"
    and "\<not> (hasPythonFlagPackageMode (Options E) \<and> \<not> shallMakeModule (Options E)
            \<and> getBasename E module_name = ''__main__''
            \<and> getPackageName E module_name = getRootRuntimePackageValue E)"
    and "onModuleEncounter E module_filename module_name module_kind = Inr None"
    and "module_kind \<noteq> ''extension''"
    and "(\<not> isStandardLibraryPath E module_filename \<or> shallFollowStandardLibrary (Options E))
           \<and> decideCompilationMode E module_name = ''compiled''
         \<longrightarrow> decideInclusionFromPGO E module_name module_kind = None"
    and "fst (matchesToShellPatterns E module_name (getShallFollowInNoCase (Options E)))"
    and "decision_cache_ok E s"
  shows "fst (decideRecursion E module_filename module_name module_kind extra_recursion s) =
           Inr (Some False,
                ''Module ''
                  @ snd (matchesToShellPatterns E module_name
                           (getShallFollowInNoCase (Options E)))
                  @ '' instructed by user to not follow to.'')"
  using assms by (auto simp add: decideRecursion_fst priv_decideRecursion_def Let_def)

text \<open>In the project, \<open>secret\<close> matches a never-follow and an always-follow pattern,
  and is excluded even on an explicit request.\<close>

theorem never_follow_wins_witness:
  "fst (matchesToShellPatterns demo_env ''secret'' (getShallFollowInNoCase (Options demo_env)))
   \<and> fst (matchesToShellPatterns demo_env ''secret'' (getShallFollowModules (Options demo_env)))
   \<and> fst (decideRecursion demo_env ''/src/secret.py'' ''secret'' ''py'' True demo_state) =
        Inr (Some False,
             ''Module is exact match of 'secret' instructed by user to not follow to.'')"
proof -
  have n: "''secret'' \<noteq> ''__main__''" by simp
  have p: "\<not> (hasPythonFlagPackageMode (Options demo_env)
            \<and> \<not> shallMakeModule (Options demo_env)
            \<and> getBasename demo_env ''secret'' = ''__main__''
            \<and> getPackageName demo_env ''secret'' = getRootRuntimePackageValue demo_env)"
    by (simp add: demo_env_def demo_options_def)
  have e: "onModuleEncounter demo_env ''/src/secret.py'' ''secret'' ''py'' = Inr None"
    by (simp add: demo_env_def)
  have k: "''py'' \<noteq> ''extension''" by simp
  have g: "(\<not> isStandardLibraryPath demo_env ''/src/secret.py''
              \<or> shallFollowStandardLibrary (Options demo_env))
           \<and> decideCompilationMode demo_env ''secret'' = ''compiled''
         \<longrightarrow> decideInclusionFromPGO demo_env ''secret'' ''py'' = None"
    by (simp add: demo_env_def)
  have m: "fst (matchesToShellPatterns demo_env ''secret''
                  (getShallFollowInNoCase (Options demo_env)))"
    by (simp add: demo_env_def demo_options_def)
  have a: "fst (matchesToShellPatterns demo_env ''secret''
                  (getShallFollowModules (Options demo_env)))"
    by (simp add: demo_env_def demo_options_def)
  show ?thesis
    using never_follow_wins [OF n p e k g m demo_cache_ok, of True] m a
    by (simp add: demo_env_def demo_options_def quoted_def)
qed

subsection \<open>Extension modules and standalone mode\<close>

text \<open>
  Claim C3.  For a module of kind \<open>extension\<close> that is not named \<open>__main__\<close>, that
  the package-mode check does not skip, and on which the plugins render no decision,
  the decision is \<open>True\<close> exactly when the build is in standalone mode, whatever the
  follow options, the follow patterns and the explicit-request flag are.
\<close>

theorem extension_iff_standalone:
  assumes "module_name \<noteq> ''__main__''"
    and "\<not> (hasPythonFlagPackageMode (Options E) \<and> \<not> shallMakeModule (Options E)
            \<and> getBasename E module_name = ''__main__''
            \<and> getPackageName E module_name = getRootRuntimePackageValue E)"
    and "onModuleEncounter E module_filename module_name ''extension'' = Inr None"
    and "decision_cache_ok E s"
  shows "fst (decideRecursion E module_filename module_name ''extension'' extra_recursion s) =
           Inr (Some (isStandaloneMode (Options E)),
                if isStandaloneMode (Options E)
                then ''Extension module needed for standalone mode.''
                else ''Extension module cannot be inspected.'')"
  using assms by (simp add: decideRecursion_fst priv_decideRecursion_def)

text \<open>With follow-all-imports and no standalone mode the extension module of the
  project is excluded; in standalone mode it is included.\<close>

theorem extension_iff_standalone_witness:
  "shallFollowAllImports (Options followall_env)
   \<and> fst (decideRecursion followall_env ''/src/ext.so'' ''ext'' ''extension'' False demo_state)
       = Inr (Some False, ''Extension module cannot be inspected.'')
   \<and> fst (decideRecursion standalone_env ''/src/ext.so'' ''ext'' ''extension'' False demo_state)
       = Inr (Some True, ''Extension module needed for standalone mode.'')"
proof -
  have n: "''ext'' \<noteq> ''__main__''" by simp
  have pA: "\<not> (hasPythonFlagPackageMode (Options followall_env)
            \<and> \<not> shallMakeModule (Options followall_env)
            \<and> getBasename followall_env ''ext'' = ''__main__''
            \<and> getPackageName followall_env ''ext'' = getRootRuntimePackageValue followall_env)"
    by (simp add: followall_env_def demo_env_def demo_options_def)
  have pB: "\<not> (hasPythonFlagPackageMode (Options standalone_env)
            \<and> \<not> shallMakeModule (Options standalone_env)
            \<and> getBasename standalone_env ''ext'' = ''__main__''
            \<and> getPackageName standalone_env ''ext'' = getRootRuntimePackageValue standalone_env)"
    by (simp add: standalone_env_def demo_env_def demo_options_def)
  have eA: "onModuleEncounter followall_env ''/src/ext.so'' ''ext'' ''extension'' = Inr None"
    by (simp add: followall_env_def demo_env_def)
  have eB: "onModuleEncounter standalone_env ''/src/ext.so'' ''ext'' ''extension'' = Inr None"
    by (simp add: standalone_env_def demo_env_def)
  show ?thesis
    using extension_iff_standalone [OF n pA eA demo_cache_ok, of False]
      extension_iff_standalone [OF n pB eB demo_cache_ok, of False]
    by (simp add: followall_env_def standalone_env_def demo_options_def)
qed

subsection \<open>Module paths\<close>

text \<open>
  Claim C8.  \<open>isSameModulePath\<close> holds of two paths exactly when their canonical
  forms are equal, the canonical form of a path being the absolute form of the path
  itself, or of its containing directory when its basename is \<open>__init__.py\<close>.
\<close>

theorem isSameModulePath_iff:
  "isSameModulePath E path1 path2 \<longleftrightarrow> canonical_path E path1 = canonical_path E path2"
  by (simp add: isSameModulePath_def canonical_path_def Let_def)

text \<open>In the project, the init file of a package and its directory are the same
  module path; a module of the package is another.\<close>

lemma isSameModulePath_example:
  "isSameModulePath demo_env ''/src/pkg/__init__.py'' ''/src/pkg''
   \<and> isSameModulePath demo_env ''/src/pkg/mod.py'' ''/src/pkg'' = False"
  by (simp add: isSameModulePath_def demo_env_def posix_basename_def posix_dirname_def)

subsection \<open>Building at most once\<close>

lemma trace_emit [simp]: "trace (emit e s) = trace s @ [e]"
  by (simp add: emit_def)

lemma imported_emit [simp]: "imported_modules (emit e s) = imported_modules s"
  by (simp add: emit_def)

lemma decision_cache_emit [simp]:
  "recursion_decision_cache (emit e s) = recursion_decision_cache s"
  by (simp add: emit_def)

lemma build_count_emit:
  "build_count E k (emit e s) = build_count E k s + (if is_build_of E k e then 1 else 0)"
  by (simp add: build_count_def)

lemma built_refl: "built_at_most_once E k s s"
  by (simp add: built_at_most_once_def)

lemma built_trans:
  "built_at_most_once E k s s1 \<Longrightarrow> built_at_most_once E k s1 s2 \<Longrightarrow> built_at_most_once E k s s2"
  by (auto simp: built_at_most_once_def split: if_splits)

lemma built_same:
  "trace s' = trace s \<Longrightarrow> imported_modules s' = imported_modules s \<Longrightarrow> built_at_most_once E k s s'"
  by (simp add: built_at_most_once_def build_count_def)

lemma built_emit:
  "\<not> is_build_of E k e \<Longrightarrow> built_at_most_once E k s (emit e s)"
  by (simp add: built_at_most_once_def build_count_emit)

lemma recurseTo_hit:
  "getImportedModuleByNameAndPath E s n f = Some c \<Longrightarrow>
     recurseTo E sig n f kind u r reason s = (Inr c, s)"
  by (simp add: recurseTo_def)

lemma recurseTo_miss_trace:
  "getImportedModuleByNameAndPath E s n f = None \<Longrightarrow>
     trace (snd (recurseTo E sig n f kind u r reason s)) =
       trace s @ [OnModuleRecursion f n kind u r]
         @ (if onModuleRecursion E f n kind u r = None
            then BuildModule f n (kind = ''extension'')
                 # (if snd (buildModule E f n (kind = ''extension'')) \<and> sig
                    then [SignalChange ''new_code''
                            (getSourceReference (fst (buildModule E f n (kind = ''extension''))))
                            reason]
                    else [])
            else [])"
  by (simp add: recurseTo_def priv_recurseTo_def addImportedModule_def Let_def emit_def
           split: option.splits)

lemma recurseTo_miss_cached:
  "builder_ok E \<Longrightarrow> getImportedModuleByNameAndPath E s n f = None \<Longrightarrow>
   onModuleRecursion E f n kind u r = None \<Longrightarrow>
     getImportedModuleByNameAndPath E (snd (recurseTo E sig n f kind u r reason s)) n f
       = Some (fst (buildModule E f n (kind = ''extension'')))
     \<and> fst (recurseTo E sig n f kind u r reason s)
       = Inr (fst (buildModule E f n (kind = ''extension'')))"
  by (simp add: recurseTo_def priv_recurseTo_def addImportedModule_def Let_def emit_def
        getImportedModuleByNameAndPath_def builder_ok_def)

lemma recurseTo_imported:
  "builder_ok E \<Longrightarrow>
   imported_modules (snd (recurseTo E sig n f kind u r reason s)) =
     (if getImportedModuleByNameAndPath E s n f = None \<and> onModuleRecursion E f n kind u r = None
      then (imported_modules s)(module_identity E n f \<mapsto> fst (buildModule E f n (kind = ''extension'')))
      else imported_modules s)"
  by (simp add: recurseTo_def priv_recurseTo_def addImportedModule_def Let_def emit_def
        getImportedModuleByNameAndPath_def builder_ok_def split: option.splits)

lemma recurseTo_step:
  assumes "builder_ok E"
  shows "built_at_most_once E k s (snd (recurseTo E sig n f kind u r reason s))"
proof (cases "getImportedModuleByNameAndPath E s n f")
  case (Some c)
  then show ?thesis by (simp add: recurseTo_hit built_refl)
next
  case None
  show ?thesis
    using None recurseTo_miss_trace [OF None, of sig kind u r reason]
      recurseTo_imported [OF assms, of sig n f kind u r reason s]
    by (auto simp: built_at_most_once_def build_count_def is_build_of_def
          getImportedModuleByNameAndPath_def is_signal_def split: if_splits)
qed

lemma try_step:
  assumes "builder_ok E"
  shows "built_at_most_once E k s (snd (considerUsedModules_try E m used f sig s))"
proof -
  obtain r s1 where d: "decideRecursion E f (used_module_name used) (used_module_kind used) False s = (r, s1)"
    by (cases "decideRecursion E f (used_module_name used) (used_module_kind used) False s")
  have b1: "built_at_most_once E k s s1"
    using d decideRecursion_trace [of E f "used_module_name used" "used_module_kind used" False s]
      decideRecursion_imported [of E f "used_module_name used" "used_module_kind used" False s]
    by (simp add: built_same)
  show ?thesis
  proof (cases r)
    case (Inl e)
    then show ?thesis using d b1 by (simp add: considerUsedModules_try_def)
  next
    case (Inr dr)
    obtain decision reason where dr: "dr = (decision, reason)" by (cases dr)
    show ?thesis
    proof (cases "decision = Some True")
      case False
      then show ?thesis using d b1 Inr dr by (simp add: considerUsedModules_try_def)
    next
      case True
      let ?rt = "recurseTo E sig (used_module_name used) f (used_module_kind used)
                   (Some (getFullName m)) (Some (used_source_ref used)) reason s1"
      have b2: "built_at_most_once E k s1 (snd ?rt)" by (rule recurseTo_step [OF assms])
      have b3: "built_at_most_once E k s (snd ?rt)" by (rule built_trans [OF b1 b2])
      show ?thesis
      proof (cases "fst ?rt")
        case (Inl e)
        then show ?thesis using d Inr dr True b3
          by (cases ?rt) (simp add: considerUsedModules_try_def)
      next
        case (Inr nm)
        have "built_at_most_once E k (snd ?rt)
                (emit (AddUsedModule (getFullName nm) (getFullName m) ''import'' reason
                        (used_source_ref used)) (snd ?rt))"
          by (rule built_emit) (simp add: is_build_of_def)
        then have "built_at_most_once E k s
                (emit (AddUsedModule (getFullName nm) (getFullName m) ''import'' reason
                        (used_source_ref used)) (snd ?rt))"
          by (rule built_trans [OF b3])
        then show ?thesis using d \<open>r = Inr dr\<close> dr True Inr
          by (cases ?rt) (simp add: considerUsedModules_try_def)
      qed
    qed
  qed
qed

lemma sysexit_step: "built_at_most_once E k s (snd (sysexit msg s))"
  by (simp add: sysexit_def built_emit is_build_of_def)

lemma warn_step: "built_at_most_once E k s (warn_not_found m used s)"
  by (simp add: warn_not_found_def built_refl built_emit is_build_of_def)

lemma loop_Cons_None:
  "used_filename used = None \<Longrightarrow>
     considerUsedModules_loop E m (used # rest) sig s =
       considerUsedModules_loop E m rest sig (warn_not_found m used s)"
  by (simp add: Let_def)

lemma loop_Cons_ok:
  "used_filename used = Some f \<Longrightarrow>
   fst (considerUsedModules_try E m used f sig (warn_not_found m used s)) = Inr u \<Longrightarrow>
     considerUsedModules_loop E m (used # rest) sig s =
       considerUsedModules_loop E m rest sig
         (snd (considerUsedModules_try E m used f sig (warn_not_found m used s)))"
  by (cases "considerUsedModules_try E m used f sig (warn_not_found m used s)")
     (simp add: Let_def)

lemma loop_Cons_forbidden:
  "used_filename used = Some f \<Longrightarrow>
   fst (considerUsedModules_try E m used f sig (warn_not_found m used s))
     = Inl (NuitkaForbiddenImportEncounter a b) \<Longrightarrow>
     considerUsedModules_loop E m (used # rest) sig s =
       sysexit (forbidden_import_message a b m used)
         (snd (considerUsedModules_try E m used f sig (warn_not_found m used s)))"
  by (cases "considerUsedModules_try E m used f sig (warn_not_found m used s)")
     (simp add: Let_def)

lemma loop_Cons_error:
  "used_filename used = Some f \<Longrightarrow>
   fst (considerUsedModules_try E m used f sig (warn_not_found m used s)) = Inl e \<Longrightarrow>
   \<forall>a b. e \<noteq> NuitkaForbiddenImportEncounter a b \<Longrightarrow>
     considerUsedModules_loop E m (used # rest) sig s =
       (Inl e, snd (considerUsedModules_try E m used f sig (warn_not_found m used s)))"
  by (cases "considerUsedModules_try E m used f sig (warn_not_found m used s)"; cases e)
     (simp_all add: Let_def)

lemma loop_step:
  assumes "builder_ok E"
  shows "built_at_most_once E k s (snd (considerUsedModules_loop E m edges sig s))"
proof (induction edges arbitrary: s)
  case Nil
  show ?case by (simp add: built_refl)
next
  case (Cons used rest)
  show ?case
  proof (cases "used_filename used")
    case None
    show ?thesis
      using built_trans [OF warn_step Cons.IH] by (simp only: loop_Cons_None [OF None])
  next
    case (Some f)
    let ?t = "considerUsedModules_try E m used f sig (warn_not_found m used s)"
    have t: "built_at_most_once E k s (snd ?t)"
      by (rule built_trans [OF warn_step try_step [OF assms]])
    show ?thesis
    proof (cases "fst ?t")
      case (Inr u)
      show ?thesis
        using built_trans [OF t Cons.IH] by (simp only: loop_Cons_ok [OF Some Inr])
    next
      case (Inl e)
      show ?thesis
      proof (cases "\<exists>a b. e = NuitkaForbiddenImportEncounter a b")
        case True
        then obtain a b where e: "e = NuitkaForbiddenImportEncounter a b" by blast
        show ?thesis
          using built_trans [OF t sysexit_step]
          by (simp only: loop_Cons_forbidden [OF Some Inl [unfolded e]])
      next
        case False
        then have ne: "\<forall>a b. e \<noteq> NuitkaForbiddenImportEncounter a b" by blast
        show ?thesis
          using t by (simp only: loop_Cons_error [OF Some Inl ne] snd_conv)
      qed
    qed
  qed
qed

lemma demo_builder_ok: "builder_ok demo_env"
  apply (simp add: builder_ok_def module_identity_def canonical_path_def demo_env_def demo_build_def demo_dirs_def)
  apply (simp add: posix_basename_def posix_dirname_def)
  done

text \<open>
  Claim C1.  On a hit of the identity cache \<open>recurseTo\<close> returns the cached record
  and leaves the state as it is: no call of the plugin hook, of the Builder or of the
  signal.  On a miss the calls are the hook, then (unless the hook raises) the Builder,
  then the signal when the Builder reports the module as added and a signal function
  was given.  With a Builder that returns the identity it was asked for, the module
  built on a miss is cached under the requested identity afterwards, and the loop of
  \<open>considerUsedModules\<close> over any list of edges invokes the Builder at most once
  for an identity, and not at all for an identity that is cached already.
\<close>

theorem recurseTo_builds_at_most_once:
  assumes "builder_ok E"
  shows "(case getImportedModuleByNameAndPath E s module_name module_filename of
            Some cached \<Rightarrow>
              recurseTo E signal_change module_name module_filename module_kind
                using_module_name source_ref reason s = (Inr cached, s)
          | None \<Rightarrow>
              trace (snd (recurseTo E signal_change module_name module_filename module_kind
                            using_module_name source_ref reason s)) =
                trace s
                  @ [OnModuleRecursion module_filename module_name module_kind
                       using_module_name source_ref]
                  @ (if onModuleRecursion E module_filename module_name module_kind
                          using_module_name source_ref = None
                     then BuildModule module_filename module_name (module_kind = ''extension'')
                          # (if snd (buildModule E module_filename module_name
                                       (module_kind = ''extension'')) \<and> signal_change
                             then [SignalChange ''new_code''
                                     (getSourceReference
                                        (fst (buildModule E module_filename module_name
                                                (module_kind = ''extension''))))
                                     reason]
                             else [])
                     else []))
         \<and> (getImportedModuleByNameAndPath E s module_name module_filename = None
              \<and> onModuleRecursion E module_filename module_name module_kind
                    using_module_name source_ref = None
            \<longrightarrow> getImportedModuleByNameAndPath E
                  (snd (recurseTo E signal_change module_name module_filename module_kind
                          using_module_name source_ref reason s))
                  module_name module_filename
                = Some (fst (buildModule E module_filename module_name
                               (module_kind = ''extension''))))
         \<and> build_count E k (snd (considerUsedModules_loop E m edges signal_change s))
               \<le> build_count E k s + 1
         \<and> (imported_modules s k \<noteq> None \<longrightarrow>
               build_count E k (snd (considerUsedModules_loop E m edges signal_change s))
                 = build_count E k s)"
proof -
  have per_call: "(case getImportedModuleByNameAndPath E s module_name module_filename of
            Some cached \<Rightarrow>
              recurseTo E signal_change module_name module_filename module_kind
                using_module_name source_ref reason s = (Inr cached, s)
          | None \<Rightarrow>
              trace (snd (recurseTo E signal_change module_name module_filename module_kind
                            using_module_name source_ref reason s)) =
                trace s
                  @ [OnModuleRecursion module_filename module_name module_kind
                       using_module_name source_ref]
                  @ (if onModuleRecursion E module_filename module_name module_kind
                          using_module_name source_ref = None
                     then BuildModule module_filename module_name (module_kind = ''extension'')
                          # (if snd (buildModule E module_filename module_name
                                       (module_kind = ''extension'')) \<and> signal_change
                             then [SignalChange ''new_code''
                                     (getSourceReference
                                        (fst (buildModule E module_filename module_name
                                                (module_kind = ''extension''))))
                                     reason]
                             else [])
                     else []))"
  proof (cases "getImportedModuleByNameAndPath E s module_name module_filename")
    case None
    then show ?thesis using recurseTo_miss_trace [OF None] by simp
  next
    case (Some c)
    then show ?thesis using recurseTo_hit [OF Some] by simp
  qed
  have "built_at_most_once E k s (snd (considerUsedModules_loop E m edges signal_change s))"
    by (rule loop_step [OF assms])
  then have "build_count E k (snd (considerUsedModules_loop E m edges signal_change s))
               \<le> build_count E k s + 1
         \<and> (imported_modules s k \<noteq> None \<longrightarrow>
               build_count E k (snd (considerUsedModules_loop E m edges signal_change s))
                 = build_count E k s)"
    by (auto simp: built_at_most_once_def split: if_splits)
  moreover have "getImportedModuleByNameAndPath E s module_name module_filename = None
              \<and> onModuleRecursion E module_filename module_name module_kind
                    using_module_name source_ref = None
            \<longrightarrow> getImportedModuleByNameAndPath E
                  (snd (recurseTo E signal_change module_name module_filename module_kind
                          using_module_name source_ref reason s))
                  module_name module_filename
                = Some (fst (buildModule E module_filename module_name
                               (module_kind = ''extension'')))"
    using recurseTo_miss_cached [OF assms] by blast
  ultimately show ?thesis using per_call by blast
qed

text \<open>Four edges of one module, three of them to \<open>wanted\<close>: one build.\<close>

theorem recurseTo_builds_at_most_once_witness:
  "builder_ok demo_env
   \<and> build_count demo_env (''wanted'', ''/src/wanted.py'')
       (snd (considerUsedModules_loop demo_env (demo_main [])
               [demo_edge ''wanted'', demo_edge ''b'', demo_edge ''wanted'', demo_edge ''wanted'']
               True demo_state)) = 1"
  using recurseTo_builds_at_most_once [OF demo_builder_ok,
          where k = "(''wanted'', ''/src/wanted.py'')" and m = "demo_main []"
            and edges = "[demo_edge ''wanted'', demo_edge ''b'', demo_edge ''wanted'',
                          demo_edge ''wanted'']"
            and signal_change = True and s = demo_state]
    demo_builder_ok
  by (simp add: build_count_def is_build_of_def demo_state_def demo_edge_def demo_main_def
        demo_env_def demo_build_def demo_options_def considerUsedModules_try_def
        decideRecursion_def priv_decideRecursion_def recurseTo_def priv_recurseTo_def
        getImportedModuleByNameAndPath_def addImportedModule_def module_identity_def
        canonical_path_def posix_basename_def posix_dirname_def warn_not_found_def
        emit_def Let_def quoted_def demo_dirs_def)

subsection \<open>The forbidden-import abort\<close>

text \<open>Unfolding the definitions of the model on the concrete project.\<close>

lemmas demo_eval = demo_state_def demo_edge_def demo_main_def
        demo_env_def demo_build_def demo_options_def considerUsedModules_try_def
        decideRecursion_def priv_decideRecursion_def recurseTo_def priv_recurseTo_def
        getImportedModuleByNameAndPath_def addImportedModule_def module_identity_def
        canonical_path_def posix_basename_def posix_dirname_def warn_not_found_def
        emit_def Let_def quoted_def demo_dirs_def considerUsedModules_loop.simps
        considerUsedModules_def sysexit_def

declare considerUsedModules_loop.simps [simp del]

lemma loop_Nil: "considerUsedModules_loop E m [] sig s = (Inr (), s)"
  by (simp add: considerUsedModules_loop.simps)

lemma loop_append:
  "considerUsedModules_loop E m (xs @ ys) sig s =
     (case considerUsedModules_loop E m xs sig s of
        (Inl e, s1) \<Rightarrow> (Inl e, s1)
      | (Inr u, s1) \<Rightarrow> considerUsedModules_loop E m ys sig s1)"
proof (induction xs arbitrary: s)
  case Nil
  show ?case by (simp add: loop_Nil)
next
  case (Cons used rest)
  show ?case
  proof (cases "used_filename used")
    case None
    show ?thesis
      using Cons.IH [of "warn_not_found m used s"]
      by (simp only: append_Cons loop_Cons_None [OF None])
  next
    case (Some f)
    let ?t = "considerUsedModules_try E m used f sig (warn_not_found m used s)"
    show ?thesis
    proof (cases "fst ?t")
      case (Inr u)
      show ?thesis
        using Cons.IH [of "snd ?t"] by (simp only: append_Cons loop_Cons_ok [OF Some Inr])
    next
      case (Inl e)
      show ?thesis
      proof (cases "\<exists>a b. e = NuitkaForbiddenImportEncounter a b")
        case True
        then obtain a b where e: "e = NuitkaForbiddenImportEncounter a b" by blast
        show ?thesis
          by (simp only: append_Cons loop_Cons_forbidden [OF Some Inl [unfolded e]])
             (simp add: sysexit_def)
      next
        case False
        then have ne: "\<forall>a b. e \<noteq> NuitkaForbiddenImportEncounter a b" by blast
        show ?thesis
          by (simp only: append_Cons loop_Cons_error [OF Some Inl ne]) simp
      qed
    qed
  qed
qed

text \<open>
  Claim C4.  When the \<open>try\<close> body of an edge (the decision or the recursion) raises
  the forbidden-import signal, after the edges before it were processed,
  \<open>considerUsedModules\<close> ends with \<open>SystemExit\<close>; the state it leaves is the one
  reached at the raise plus the diagnostic, which names the forbidden module, the
  module to avoid, the importing module and the source location of the edge.  The
  result does not depend on the edges after it nor on the implicit imports: none of
  them is processed.  When all edges are processed and the plugins' implicit-imports
  pass raises the signal, the run ends the same way, the diagnostic naming the
  forbidden module, the module to avoid and the importing module.
\<close>

theorem forbidden_import_aborts:
  "(getUsedModules m = before @ used # rest
      \<and> fst (considerUsedModules_loop E m before signal_change s) = Inr ()
      \<and> used_filename used = Some filename
      \<and> fst (considerUsedModules_try E m used filename signal_change
                (warn_not_found m used (snd (considerUsedModules_loop E m before signal_change s))))
          = Inl (NuitkaForbiddenImportEncounter forbidden avoided)
    \<longrightarrow> considerUsedModules E m signal_change s =
          (Inl SystemExit,
           emit (LogSysExit
                   (''Error, forbidden import of '' @ quoted forbidden
                    @ '' (intending to avoid '' @ quoted avoided
                    @ '') in module '' @ quoted (getFullName m)
                    @ '' at '' @ quoted (used_source_ref used) @ '' encountered.''))
             (snd (considerUsedModules_try E m used filename signal_change
                     (warn_not_found m used
                        (snd (considerUsedModules_loop E m before signal_change s)))))))
   \<and> (fst (considerUsedModules_loop E m (getUsedModules m) signal_change s) = Inr ()
      \<and> fst (considerImplicitImports E m signal_change
                (snd (considerUsedModules_loop E m (getUsedModules m) signal_change s)))
          = Inl (NuitkaForbiddenImportEncounter forbidden avoided)
    \<longrightarrow> considerUsedModules E m signal_change s =
          (Inl SystemExit,
           emit (LogSysExit
                   (''Error, forbidden import of '' @ quoted forbidden
                    @ '' (intending to avoid '' @ quoted avoided
                    @ '') done implicitly by module '' @ quoted (getFullName m) @ ''.''))
             (snd (considerImplicitImports E m signal_change
                     (snd (considerUsedModules_loop E m (getUsedModules m) signal_change s))))))"
proof (intro conjI impI)
  assume a: "getUsedModules m = before @ used # rest
      \<and> fst (considerUsedModules_loop E m before signal_change s) = Inr ()
      \<and> used_filename used = Some filename
      \<and> fst (considerUsedModules_try E m used filename signal_change
                (warn_not_found m used (snd (considerUsedModules_loop E m before signal_change s))))
          = Inl (NuitkaForbiddenImportEncounter forbidden avoided)"
  obtain r0 s0 where pre: "considerUsedModules_loop E m before signal_change s = (r0, s0)"
    by (cases "considerUsedModules_loop E m before signal_change s")
  from a pre have r0: "r0 = Inr ()" by simp
  from a have u: "getUsedModules m = before @ used # rest" by blast
  from a have f: "used_filename used = Some filename" by blast
  from a pre have t: "fst (considerUsedModules_try E m used filename signal_change
                (warn_not_found m used s0)) = Inl (NuitkaForbiddenImportEncounter forbidden avoided)"
    by simp
  have "considerUsedModules_loop E m (before @ used # rest) signal_change s =
          considerUsedModules_loop E m (used # rest) signal_change s0"
    by (simp add: loop_append pre r0)
  also have "\<dots> = sysexit (forbidden_import_message forbidden avoided m used)
                    (snd (considerUsedModules_try E m used filename signal_change
                            (warn_not_found m used s0)))"
    by (rule loop_Cons_forbidden [OF f t])
  finally have l: "considerUsedModules_loop E m (getUsedModules m) signal_change s =
       sysexit (forbidden_import_message forbidden avoided m used)
                    (snd (considerUsedModules_try E m used filename signal_change
                            (warn_not_found m used s0)))"
    by (simp only: u)
  show "considerUsedModules E m signal_change s =
          (Inl SystemExit,
           emit (LogSysExit
                   (''Error, forbidden import of '' @ quoted forbidden
                    @ '' (intending to avoid '' @ quoted avoided
                    @ '') in module '' @ quoted (getFullName m)
                    @ '' at '' @ quoted (used_source_ref used) @ '' encountered.''))
             (snd (considerUsedModules_try E m used filename signal_change
                     (warn_not_found m used
                        (snd (considerUsedModules_loop E m before signal_change s))))))"
    by (simp add: considerUsedModules_def l pre sysexit_def forbidden_import_message_def)
next
  assume b: "fst (considerUsedModules_loop E m (getUsedModules m) signal_change s) = Inr ()
      \<and> fst (considerImplicitImports E m signal_change
                (snd (considerUsedModules_loop E m (getUsedModules m) signal_change s)))
          = Inl (NuitkaForbiddenImportEncounter forbidden avoided)"
  obtain r1 s1 where l: "considerUsedModules_loop E m (getUsedModules m) signal_change s = (r1, s1)"
    by (cases "considerUsedModules_loop E m (getUsedModules m) signal_change s")
  obtain r2 s2 where i: "considerImplicitImports E m signal_change s1 = (r2, s2)"
    by (cases "considerImplicitImports E m signal_change s1")
  from b l have r1: "r1 = Inr ()" by simp
  from b l i have r2: "r2 = Inl (NuitkaForbiddenImportEncounter forbidden avoided)" by simp
  show "considerUsedModules E m signal_change s =
          (Inl SystemExit,
           emit (LogSysExit
                   (''Error, forbidden import of '' @ quoted forbidden
                    @ '' (intending to avoid '' @ quoted avoided
                    @ '') done implicitly by module '' @ quoted (getFullName m) @ ''.''))
             (snd (considerImplicitImports E m signal_change
                     (snd (considerUsedModules_loop E m (getUsedModules m) signal_change s)))))"
    by (simp add: considerUsedModules_def l i r1 r2 sysexit_def forbidden_implicit_message_def)
qed

text \<open>Three edges, the second forbidden: the first is built and registered, the
  third never looked at.\<close>

theorem forbidden_import_aborts_witness:
  "fst (considerUsedModules demo_env (demo_main forbid_edges) True demo_state) = Inl SystemExit
   \<and> trace (snd (considerUsedModules demo_env (demo_main forbid_edges) True demo_state)) =
       [OnModuleRecursion ''/src/wanted.py'' ''wanted'' ''py'' (Some ''main'')
          (Some ''/src/main.py:wanted''),
        BuildModule ''/src/wanted.py'' ''wanted'' False,
        SignalChange ''new_code'' ''/src/wanted.py:1''
          ''Module is exact match of 'wanted' instructed by user to follow to.'',
        AddUsedModule ''wanted'' ''main'' ''import''
          ''Module is exact match of 'wanted' instructed by user to follow to.''
          ''/src/main.py:wanted'',
        LogSysExit ''Error, forbidden import of 'banned' (intending to avoid 'heavy') in module 'main' at '/src/main.py:banned' encountered.'']
   \<and> considerUsedModules implicit_forbid_env (demo_main [demo_edge ''b'']) True demo_state =
       (Inl SystemExit,
        emit (LogSysExit ''Error, forbidden import of 'banned' (intending to avoid 'heavy') done implicitly by module 'main'.'')
          (snd (considerUsedModules_loop implicit_forbid_env (demo_main [demo_edge ''b''])
                  [demo_edge ''b''] True demo_state)))"
  using forbidden_import_aborts [where E = demo_env and m = "demo_main forbid_edges"
          and before = "[demo_edge ''wanted'']" and used = "demo_edge ''banned''"
          and rest = "[demo_edge ''later'']" and signal_change = True and s = demo_state
          and filename = "''/src/banned.py''" and forbidden = "''banned''"
          and avoided = "''heavy''"]
    forbidden_import_aborts [where E = implicit_forbid_env and m = "demo_main [demo_edge ''b'']"
          and signal_change = True and s = demo_state
          and forbidden = "''banned''" and avoided = "''heavy''"]
  by (simp add: demo_eval forbid_edges_def implicit_forbid_env_def)

subsection \<open>Unresolved imports\<close>

lemma recurseTo_decision_cache [simp]:
  "recursion_decision_cache (snd (recurseTo E sig n f kind u r reason s))
     = recursion_decision_cache s"
  by (simp add: recurseTo_def priv_recurseTo_def addImportedModule_def Let_def emit_def
           split: option.splits)

lemma recurseTo_warn_about [simp]:
  "filter is_warn_about (trace (snd (recurseTo E sig n f kind u r reason s)))
     = filter is_warn_about (trace s)"
  by (simp add: recurseTo_def priv_recurseTo_def addImportedModule_def Let_def emit_def
        is_warn_about_def split: option.splits)

lemma decideRecursion_cached:
  "decision_cache_ok E s \<Longrightarrow> priv_decideRecursion E f n k x = Inr d \<Longrightarrow>
     decideRecursion E f n k x s =
       (Inr d, snd (decideRecursion E f n k x s))
     \<and> recursion_decision_cache (snd (decideRecursion E f n k x s)) (f, n, k, x) = Some d"
  by (auto simp: decideRecursion_def decision_cache_ok_def Let_def split: option.splits)

lemma try_warn_about:
  "filter is_warn_about (trace (snd (considerUsedModules_try E m used f sig s)))
     = filter is_warn_about (trace s)"
proof -
  obtain r s1 where d: "decideRecursion E f (used_module_name used) (used_module_kind used) False s = (r, s1)"
    by (cases "decideRecursion E f (used_module_name used) (used_module_kind used) False s")
  have t1: "trace s1 = trace s"
    using decideRecursion_trace [of E f "used_module_name used" "used_module_kind used" False s] d
    by simp
  show ?thesis
  proof (cases r)
    case (Inl e)
    then show ?thesis using d t1 by (simp add: considerUsedModules_try_def)
  next
    case (Inr dr)
    obtain decision reason where dr: "dr = (decision, reason)" by (cases dr)
    let ?rt = "recurseTo E sig (used_module_name used) f (used_module_kind used)
                   (Some (getFullName m)) (Some (used_source_ref used)) reason s1"
    have w: "filter is_warn_about (trace (snd ?rt)) = filter is_warn_about (trace s)"
      using t1 by simp
    show ?thesis
      using d Inr dr t1 w
      by (cases ?rt; cases "fst ?rt")
         (auto simp add: considerUsedModules_try_def is_warn_about_def)
  qed
qed

lemma try_decision_cache:
  assumes "decision_cache_ok E s"
    and "priv_decideRecursion E f (used_module_name used) (used_module_kind used) False = Inr d"
  shows "recursion_decision_cache (snd (considerUsedModules_try E m used f sig s))
           (f, used_module_name used, used_module_kind used, False) = Some d"
proof -
  let ?d = "decideRecursion E f (used_module_name used) (used_module_kind used) False s"
  obtain decision reason where dr: "d = (decision, reason)" by (cases d)
  have d: "?d = (Inr d, snd ?d)"
    and c: "recursion_decision_cache (snd ?d) (f, used_module_name used, used_module_kind used, False) = Some d"
    using decideRecursion_cached [OF assms] by simp_all
  let ?rt = "recurseTo E sig (used_module_name used) f (used_module_kind used)
                   (Some (getFullName m)) (Some (used_source_ref used)) reason (snd ?d)"
  have "recursion_decision_cache (snd ?rt) = recursion_decision_cache (snd ?d)" by simp
  then show ?thesis
    using c dr
    apply (simp only: considerUsedModules_try_def)
    apply (subst d)
    apply (cases ?rt; cases "fst ?rt")
     apply (auto simp add: dr)
    done
qed


text \<open>
  Claim C10.  In the loop of \<open>considerUsedModules\<close> the warning depends on the
  finding of the edge only: processing one edge adds one \<open>warnAbout\<close> call when
  the finding is \<open>not-found\<close> and none otherwise.  Dropping the edge depends on the
  filename only: without a filename the loop goes on from the state after the warning
  step (no decision, no recursion, no usage); with a filename the \<open>try\<close> body runs
  from that state, and a decision the engine renders for the edge is in the decision
  cache afterwards.  So an edge marked not-found with a filename is warned about and
  decided, and an edge without a filename and with another finding is dropped with
  no warning.
\<close>

theorem warning_and_drop_independent:
  "trace (warn_not_found m used s) =
     trace s @ (if used_finding used = ''not-found''
                then [WarnAbout (getFullName m) (used_source_ref used)
                        (used_module_name used) (used_level used)]
                else [])
   \<and> length (filter is_warn_about
               (trace (snd (considerUsedModules_loop E m [used] signal_change s)))) =
       length (filter is_warn_about (trace s))
         + (if used_finding used = ''not-found'' then 1 else 0)
   \<and> (used_filename used = None \<longrightarrow>
        considerUsedModules_loop E m (used # rest) signal_change s =
          considerUsedModules_loop E m rest signal_change (warn_not_found m used s)
        \<and> considerUsedModules_loop E m [used] signal_change s =
            (Inr (), warn_not_found m used s))
   \<and> (\<forall>filename. used_filename used = Some filename \<longrightarrow>
        considerUsedModules_loop E m (used # rest) signal_change s =
          (case considerUsedModules_try E m used filename signal_change
                  (warn_not_found m used s) of
             (Inl (NuitkaForbiddenImportEncounter forbidden avoided), s2) \<Rightarrow>
               sysexit (forbidden_import_message forbidden avoided m used) s2
           | (Inl e, s2) \<Rightarrow> (Inl e, s2)
           | (Inr u, s2) \<Rightarrow> considerUsedModules_loop E m rest signal_change s2)
        \<and> (\<forall>d. decision_cache_ok E s
                \<and> priv_decideRecursion E filename (used_module_name used)
                     (used_module_kind used) False = Inr d
              \<longrightarrow> recursion_decision_cache
                    (snd (considerUsedModules_loop E m [used] signal_change s))
                    (filename, used_module_name used, used_module_kind used, False) = Some d))"
proof (intro conjI impI allI)
  show "trace (warn_not_found m used s) =
     trace s @ (if used_finding used = ''not-found''
                then [WarnAbout (getFullName m) (used_source_ref used)
                        (used_module_name used) (used_level used)]
                else [])"
    by (simp add: warn_not_found_def)
next
  have w: "length (filter is_warn_about (trace (warn_not_found m used s))) =
       length (filter is_warn_about (trace s))
         + (if used_finding used = ''not-found'' then 1 else 0)"
    by (simp add: warn_not_found_def is_warn_about_def)
  show "length (filter is_warn_about
               (trace (snd (considerUsedModules_loop E m [used] signal_change s)))) =
       length (filter is_warn_about (trace s))
         + (if used_finding used = ''not-found'' then 1 else 0)"
  proof (cases "used_filename used")
    case None
    show ?thesis using w by (simp add: loop_Cons_None [OF None] loop_Nil)
  next
    case (Some f)
    let ?t = "considerUsedModules_try E m used f signal_change (warn_not_found m used s)"
    have t: "filter is_warn_about (trace (snd ?t))
               = filter is_warn_about (trace (warn_not_found m used s))"
      by (rule try_warn_about)
    show ?thesis
    proof (cases "fst ?t")
      case (Inr u)
      show ?thesis using w t by (simp add: loop_Cons_ok [OF Some Inr] loop_Nil)
    next
      case (Inl e)
      show ?thesis
      proof (cases "\<exists>a b. e = NuitkaForbiddenImportEncounter a b")
        case True
        then obtain a b where e: "e = NuitkaForbiddenImportEncounter a b" by blast
        show ?thesis
          using w t
          by (simp add: loop_Cons_forbidden [OF Some Inl [unfolded e]] sysexit_def
                is_warn_about_def)
      next
        case False
        then have ne: "\<forall>a b. e \<noteq> NuitkaForbiddenImportEncounter a b" by blast
        show ?thesis using w t by (simp add: loop_Cons_error [OF Some Inl ne])
      qed
    qed
  qed
next
  assume n: "used_filename used = None"
  show "considerUsedModules_loop E m (used # rest) signal_change s =
          considerUsedModules_loop E m rest signal_change (warn_not_found m used s)"
    by (rule loop_Cons_None [OF n])
  show "considerUsedModules_loop E m [used] signal_change s = (Inr (), warn_not_found m used s)"
    by (simp add: loop_Cons_None [OF n] loop_Nil)
next
  fix filename
  assume f: "used_filename used = Some filename"
  show "considerUsedModules_loop E m (used # rest) signal_change s =
          (case considerUsedModules_try E m used filename signal_change
                  (warn_not_found m used s) of
             (Inl (NuitkaForbiddenImportEncounter forbidden avoided), s2) \<Rightarrow>
               sysexit (forbidden_import_message forbidden avoided m used) s2
           | (Inl e, s2) \<Rightarrow> (Inl e, s2)
           | (Inr u, s2) \<Rightarrow> considerUsedModules_loop E m rest signal_change s2)"
    using f by (simp add: considerUsedModules_loop.simps Let_def)
next
  fix filename d
  assume f: "used_filename used = Some filename"
  assume a: "decision_cache_ok E s
                \<and> priv_decideRecursion E filename (used_module_name used)
                     (used_module_kind used) False = Inr d"
  have ok: "decision_cache_ok E (warn_not_found m used s)"
    using a by (simp add: decision_cache_ok_def warn_not_found_def)
  let ?t = "considerUsedModules_try E m used filename signal_change (warn_not_found m used s)"
  have t: "recursion_decision_cache (snd ?t)
             (filename, used_module_name used, used_module_kind used, False) = Some d"
    using a by (intro try_decision_cache [OF ok]) simp
  show "recursion_decision_cache
          (snd (considerUsedModules_loop E m [used] signal_change s))
          (filename, used_module_name used, used_module_kind used, False) = Some d"
  proof (cases "fst ?t")
    case (Inr u)
    show ?thesis using t by (simp add: loop_Cons_ok [OF f Inr] loop_Nil)
  next
    case (Inl e)
    show ?thesis
    proof (cases "\<exists>a b. e = NuitkaForbiddenImportEncounter a b")
      case True
      then obtain a b where e: "e = NuitkaForbiddenImportEncounter a b" by blast
      show ?thesis
        using t by (simp add: loop_Cons_forbidden [OF f Inl [unfolded e]] sysexit_def)
    next
      case False
      then have ne: "\<forall>a b. e \<noteq> NuitkaForbiddenImportEncounter a b" by blast
      show ?thesis using t by (simp add: loop_Cons_error [OF f Inl ne])
    qed
  qed
qed

text \<open>The first edge is warned about and built, the second dropped in silence, the
  third warned about and dropped.\<close>

theorem warning_and_drop_independent_witness:
  "considerUsedModules_loop demo_env (demo_main []) unresolved_edges True demo_state
     = (Inr (), snd (considerUsedModules_loop demo_env (demo_main []) unresolved_edges True demo_state))
   \<and> trace (snd (considerUsedModules_loop demo_env (demo_main []) unresolved_edges True demo_state)) =
       [WarnAbout ''main'' ''/src/main.py:wanted'' ''wanted'' 0,
        OnModuleRecursion ''/src/wanted.py'' ''wanted'' ''py'' (Some ''main'')
          (Some ''/src/main.py:wanted''),
        BuildModule ''/src/wanted.py'' ''wanted'' False,
        SignalChange ''new_code'' ''/src/wanted.py:1''
          ''Module is exact match of 'wanted' instructed by user to follow to.'',
        AddUsedModule ''wanted'' ''main'' ''import''
          ''Module is exact match of 'wanted' instructed by user to follow to.''
          ''/src/main.py:wanted'',
        WarnAbout ''main'' ''/src/main.py:lost'' ''lost'' 0]"
  using warning_and_drop_independent [where E = demo_env and m = "demo_main []"
          and used = "(demo_edge ''wanted'')\<lparr>used_finding := ''not-found''\<rparr>"
          and rest = "tl unresolved_edges" and signal_change = True and s = demo_state]
    warning_and_drop_independent [where E = demo_env and m = "demo_main []"
          and used = "(demo_edge ''gone'')\<lparr>used_filename := None, used_finding := ''built-in''\<rparr>"
          and rest = "[]" and signal_change = True and s = demo_state]
  by (simp add: demo_eval unresolved_edges_def)

subsection \<open>Following no imports\<close>

text \<open>
  Claim C5, as stated, at the module \<open>b\<close> of the project with follow-no-imports
  enabled: no plugin or profiling decision, no matching pattern, not in the standard
  library, not an extension; the decision is \<open>None\<close>, but its reason is
  ``Instructed by user to not follow at all.'', which does not end in
  ``not following without request.''.
\<close>

theorem follow_no_imports_counterexample:
  "shallFollowNoImports (Options nofollow_env)
   \<and> onModuleEncounter nofollow_env ''/src/b.py'' ''b'' ''py'' = Inr None
   \<and> decideInclusionFromPGO nofollow_env ''b'' ''py'' = None
   \<and> fst (matchesToShellPatterns nofollow_env ''b''
             (getShallFollowInNoCase (Options nofollow_env))) = False
   \<and> fst (matchesToShellPatterns nofollow_env ''b''
             (getShallFollowModules (Options nofollow_env))) = False
   \<and> isStandardLibraryPath nofollow_env ''/src/b.py'' = False
   \<and> fst (decideRecursion nofollow_env ''/src/b.py'' ''b'' ''py'' False demo_state) =
        Inr (None, ''Instructed by user to not follow at all.'')
   \<and> endswith ''Instructed by user to not follow at all.'' ''not following without request.''
        = False"
  by (simp add: demo_eval nofollow_env_def endswith_def)

text \<open>
  Claim C5, amended.  For an edge of the import graph (no explicit-request flag) to a
  module that is not \<open>__main__\<close>, not skipped by the package-mode check, without
  plugin or profiling decision, not an extension, matching no never-follow pattern,
  not followed as standard library, and not included by follow-all-imports, and for a
  decision cache that holds results of \<open>_decideRecursion\<close> only: if the
  name matches an always-follow pattern the decision is \<open>True\<close> with the reason
  ``Module ... instructed by user to follow to.''; otherwise the decision is \<open>None\<close>,
  with the reason ``Instructed by user to not follow at all.'' when follow-no-imports
  is enabled, and ``Default behavior in non-standalone mode, not following without
  request.'' when it is not; and in that case the \<open>try\<close> body of the edge ends
  without any call: the module is not built, no hook or signal is called, no usage is
  registered.
\<close>

theorem follow_no_imports_undecided:
  assumes "used_module_name used \<noteq> ''__main__''"
    and "\<not> (hasPythonFlagPackageMode (Options E) \<and> \<not> shallMakeModule (Options E)
            \<and> getBasename E (used_module_name used) = ''__main__''
            \<and> getPackageName E (used_module_name used) = getRootRuntimePackageValue E)"
    and "onModuleEncounter E filename (used_module_name used) (used_module_kind used) = Inr None"
    and "used_module_kind used \<noteq> ''extension''"
    and "(\<not> isStandardLibraryPath E filename \<or> shallFollowStandardLibrary (Options E))
           \<and> decideCompilationMode E (used_module_name used) = ''compiled''
         \<longrightarrow> decideInclusionFromPGO E (used_module_name used) (used_module_kind used) = None"
    and "\<not> fst (matchesToShellPatterns E (used_module_name used)
                  (getShallFollowInNoCase (Options E)))"
    and "\<not> (isStandardLibraryPath E filename \<and> shallFollowStandardLibrary (Options E))"
    and "shallFollowAllImports (Options E)
         \<longrightarrow> isStandardLibraryPath E filename
             \<and> \<not> isStandardLibraryNoAutoInclusionModule E (used_module_name used)"
    and "decision_cache_ok E s"
  shows "fst (decideRecursion E filename (used_module_name used) (used_module_kind used) False s) =
           Inr (if fst (matchesToShellPatterns E (used_module_name used)
                          (getShallFollowModules (Options E)))
                then (Some True,
                      ''Module ''
                        @ snd (matchesToShellPatterns E (used_module_name used)
                                 (getShallFollowModules (Options E)))
                        @ '' instructed by user to follow to.'')
                else (None,
                      if shallFollowNoImports (Options E)
                      then ''Instructed by user to not follow at all.''
                      else ''Default behavior in non-standalone mode, not following without request.''))
         \<and> (\<not> fst (matchesToShellPatterns E (used_module_name used)
                      (getShallFollowModules (Options E)))
              \<longrightarrow> fst (considerUsedModules_try E m used filename signal_change s) = Inr ()
                  \<and> trace (snd (considerUsedModules_try E m used filename signal_change s))
                      = trace s
                  \<and> imported_modules
                      (snd (considerUsedModules_try E m used filename signal_change s))
                      = imported_modules s)"
proof -
  let ?any = "matchesToShellPatterns E (used_module_name used) (getShallFollowModules (Options E))"
  let ?d = "decideRecursion E filename (used_module_name used) (used_module_kind used) False s"
  have p: "priv_decideRecursion E filename (used_module_name used) (used_module_kind used) False =
           Inr (if fst ?any
                then (Some True, ''Module '' @ snd ?any @ '' instructed by user to follow to.'')
                else (None,
                      if shallFollowNoImports (Options E)
                      then ''Instructed by user to not follow at all.''
                      else ''Default behavior in non-standalone mode, not following without request.''))"
    using assms(1-8) by (auto simp add: priv_decideRecursion_def Let_def)
  have d: "fst ?d = Inr (if fst ?any
                then (Some True, ''Module '' @ snd ?any @ '' instructed by user to follow to.'')
                else (None,
                      if shallFollowNoImports (Options E)
                      then ''Instructed by user to not follow at all.''
                      else ''Default behavior in non-standalone mode, not following without request.''))"
    using p by (simp add: decideRecursion_fst [OF assms(9)])
  have e: "\<not> fst ?any \<Longrightarrow>
             fst (considerUsedModules_try E m used filename signal_change s) = Inr ()
             \<and> trace (snd (considerUsedModules_try E m used filename signal_change s)) = trace s
             \<and> imported_modules (snd (considerUsedModules_try E m used filename signal_change s))
                 = imported_modules s"
  proof -
    assume n: "\<not> fst ?any"
    obtain r s1 where c: "?d = (r, s1)" by (cases ?d)
    have "trace s1 = trace s" and "imported_modules s1 = imported_modules s"
      using c decideRecursion_trace [of E filename "used_module_name used" "used_module_kind used" False s]
        decideRecursion_imported [of E filename "used_module_name used" "used_module_kind used" False s]
      by simp_all
    then show ?thesis
      using c d n by (simp add: considerUsedModules_try_def)
  qed
  show ?thesis using d e by blast
qed

text \<open>The module \<open>b\<close> with follow-no-imports, where processing the edge only fills
  the decision cache; \<open>wanted\<close>, which matches an always-follow pattern; and \<open>b\<close>
  without follow-no-imports.\<close>

theorem follow_no_imports_undecided_witness:
  "fst (decideRecursion nofollow_env ''/src/b.py'' ''b'' ''py'' False demo_state) =
     Inr (None, ''Instructed by user to not follow at all.'')
   \<and> considerUsedModules_try nofollow_env (demo_main []) (demo_edge ''b'') ''/src/b.py'' True
       demo_state =
       (Inr (), demo_state\<lparr>recursion_decision_cache :=
                  [(''/src/b.py'', ''b'', ''py'', False) \<mapsto>
                     (None, ''Instructed by user to not follow at all.'')]\<rparr>)
   \<and> fst (decideRecursion nofollow_env ''/src/wanted.py'' ''wanted'' ''py'' False demo_state) =
       Inr (Some True, ''Module is exact match of 'wanted' instructed by user to follow to.'')
   \<and> fst (decideRecursion demo_env ''/src/b.py'' ''b'' ''py'' False demo_state) =
       Inr (None, ''Default behavior in non-standalone mode, not following without request.'')"
  using follow_no_imports_undecided [where E = nofollow_env and used = "demo_edge ''b''"
          and filename = "''/src/b.py''" and s = demo_state and m = "demo_main []"
          and signal_change = True]
    follow_no_imports_undecided [where E = nofollow_env and used = "demo_edge ''wanted''"
          and filename = "''/src/wanted.py''" and s = demo_state and m = "demo_main []"
          and signal_change = True]
    follow_no_imports_undecided [where E = demo_env and used = "demo_edge ''b''"
          and filename = "''/src/b.py''" and s = demo_state and m = "demo_main []"
          and signal_change = True]
  by (simp add: demo_eval nofollow_env_def decision_cache_ok_def)

subsection \<open>The trace of the walker\<close>

lemma extended_refl: "trace_extended P s s"
  by (simp add: trace_extended_def)

lemma extended_trans:
  "trace_extended P s s1 \<Longrightarrow> trace_extended P s1 s2 \<Longrightarrow> trace_extended P s s2"
  by (auto simp: trace_extended_def)

lemma extended_emit: "P e \<Longrightarrow> trace_extended P s (emit e s)"
  by (simp add: trace_extended_def)

lemma extended_same: "trace s' = trace s \<Longrightarrow> trace_extended P s s'"
  by (simp add: trace_extended_def)

lemma extended_filter:
  "trace_extended P s s' \<Longrightarrow> \<forall>e. P e \<longrightarrow> \<not> Q e \<Longrightarrow>
     filter Q (trace s') = filter Q (trace s)"
  by (auto simp: trace_extended_def list_all_iff filter_empty_conv)

lemma addImportedModule_trace [simp]: "trace (addImportedModule E m s) = trace s"
  by (simp add: addImportedModule_def)

lemma recurseTo_walker:
  "trace_extended walker_event s (snd (recurseTo E False n f kind u r reason s))"
  by (simp add: recurseTo_def priv_recurseTo_def Let_def trace_extended_def walker_event_def
        is_signal_def is_no_match_warning_def split: option.splits)

lemma head_walker:
  "trace_extended walker_event s (snd (checkPluginSinglePath_head E p pkg s))"
proof -
  let ?p = "abspath E p"
  let ?nk = "getModuleNameAndKindFromFilename E ?p"
  let ?n = "makeModuleNameInPackage E (fst ?nk) pkg"
  let ?s1 = "if isShowInclusion (Options E)
             then emit (LogInfo (''Checking detail plug-in path '' @ quoted ?p
                                    @ '' '' @ quoted (str_of pkg) @ '':'')) s
             else s"
  let ?s2 = "if snd ?nk = Some ''extension'' \<and> \<not> isStandaloneMode (Options E)
             then emit (LogWarning
                       (''Cannot include extension module '' @ quoted ?n
                        @ '' unless using at least standalone mode, where they would be copied. In this mode, extension modules are not part of the compiled result, and therefore asking to include them makes no sense.''
                        @ [CHR 0x0A])) ?s1
             else ?s1"
  have e1: "trace_extended walker_event s ?s1"
    by (simp add: extended_refl extended_emit walker_event_def is_signal_def is_no_match_warning_def)
  have e2: "trace_extended walker_event ?s1 ?s2"
    by (simp add: extended_refl extended_emit walker_event_def is_signal_def is_no_match_warning_def)
  have e12: "trace_extended walker_event s ?s2" by (rule extended_trans [OF e1 e2])
  show ?thesis
  proof (cases "snd ?nk")
    case None
    then show ?thesis using e12 by (simp add: checkPluginSinglePath_head_def Let_def)
  next
    case (Some kind)
    obtain r s3 where d: "decideRecursion E ?p ?n kind True ?s2 = (r, s3)"
      by (cases "decideRecursion E ?p ?n kind True ?s2")
    have "trace s3 = trace ?s2"
      using decideRecursion_trace [of E ?p ?n kind True ?s2] d by simp
    then have e3: "trace_extended walker_event s s3"
      using e12 by (simp add: trace_extended_def)
    show ?thesis
    proof (cases r)
      case (Inl e)
      then show ?thesis using Some d e3 by (simp add: checkPluginSinglePath_head_def Let_def)
    next
      case (Inr dr)
      obtain decision reason where dr: "dr = (decision, reason)" by (cases dr)
      show ?thesis
      proof (cases "decision = Some True")
        case False
        have "trace_extended walker_event s3
                (emit (LogWarning (''Not allowed to include module '' @ quoted ?n
                                     @ '' due to '' @ quoted reason @ ''.'')) s3)"
          by (rule extended_emit) (simp add: walker_event_def is_signal_def is_no_match_warning_def)
        then have "trace_extended walker_event s
                (emit (LogWarning (''Not allowed to include module '' @ quoted ?n
                                     @ '' due to '' @ quoted reason @ ''.'')) s3)"
          by (rule extended_trans [OF e3])
        then show ?thesis
          using Some d Inr dr False by (simp add: checkPluginSinglePath_head_def Let_def)
      next
        case True
        let ?rt = "recurseTo E False ?n ?p kind None None reason s3"
        have "trace_extended walker_event s (snd ?rt)"
          by (rule extended_trans [OF e3 recurseTo_walker])
        then show ?thesis
          using Some d Inr dr True
          by (cases ?rt; cases "fst ?rt") (simp_all add: checkPluginSinglePath_head_def Let_def)
      qed
    qed
  qed
qed

lemma add_head_walker:
  "trace_extended walker_event s (snd (priv_addIncludedModule_head E m s))"
  by (simp add: priv_addIncludedModule_head_def Let_def trace_extended_def walker_event_def
        is_signal_def is_no_match_warning_def)

lemma walker_extends:
  "trace_extended walker_event s (snd (checkPluginSinglePath depth E p pkg s))"
  "trace_extended walker_event s (snd (priv_addIncludedModule depth E m s))"
  "trace_extended walker_event s (snd (priv_addIncludedModule_loop depth E m entries s))"
proof (induction depth E p pkg s and depth E m s and depth E m entries s
       rule: checkPluginSinglePath_priv_addIncludedModule_priv_addIncludedModule_loop.induct)
  case (1 E plugin_filename module_package s)
  show ?case by (simp add: extended_refl)
next
  case (2 depth E plugin_filename module_package s)
  obtain r s1 where h: "checkPluginSinglePath_head E plugin_filename module_package s = (r, s1)"
    by (cases "checkPluginSinglePath_head E plugin_filename module_package s")
  have e: "trace_extended walker_event s s1"
    using head_walker [of s E plugin_filename module_package] h by simp
  show ?case
  proof (cases r)
    case (Inl err)
    then show ?thesis using h e by simp
  next
    case (Inr mo)
    show ?thesis
    proof (cases mo)
      case None
      then show ?thesis using h e Inr by simp
    next
      case (Some m)
      have "trace_extended walker_event s1 (snd (priv_addIncludedModule depth E m s1))"
        using "2.IH" [OF h [symmetric] Inr Some] .
      then show ?thesis using h Inr Some extended_trans [OF e] by simp
    qed
  qed
next
  case (3 depth E m s)
  obtain r s1 where h: "priv_addIncludedModule_head E m s = (r, s1)"
    by (cases "priv_addIncludedModule_head E m s")
  have e: "trace_extended walker_event s s1"
    using add_head_walker [of s E m] h by simp
  show ?case
  proof (cases r)
    case (Inl err)
    then show ?thesis using h e by simp
  next
    case (Inr po)
    show ?thesis
    proof (cases po)
      case None
      then show ?thesis using h e Inr by simp
    next
      case (Some package_dir)
      have "trace_extended walker_event s1
              (snd (priv_addIncludedModule_loop depth E m (listDir E package_dir) s1))"
        using "3.IH" [OF h [symmetric] Inr Some] .
      then show ?thesis using h Inr Some extended_trans [OF e] by simp
    qed
  qed
next
  case (4 depth E m s)
  show ?case by (simp add: extended_refl)
next
  case (5 depth E m entry rest s)
  show ?case
  proof (cases "sub_path_checked E entry")
    case False
    then show ?thesis using "5.IH"(3) by simp
  next
    case True
    obtain r s1 where c: "checkPluginSinglePath depth E (fst entry) (Some (getFullName m)) s = (r, s1)"
      by (cases "checkPluginSinglePath depth E (fst entry) (Some (getFullName m)) s")
    have e: "trace_extended walker_event s s1"
      using "5.IH"(1) [OF True] c by simp
    show ?thesis
    proof (cases r)
      case (Inl err)
      then show ?thesis using True c e by simp
    next
      case (Inr u)
      have "trace_extended walker_event s1 (snd (priv_addIncludedModule_loop depth E m rest s1))"
        using "5.IH"(2) [OF True c [symmetric] Inr] .
      then show ?thesis using True c Inr extended_trans [OF e] by simp
    qed
  qed
qed

lemmas walker_eval = checkPluginSinglePath_head_def priv_addIncludedModule_head_def
  sub_path_checked_def demo_name_and_kind_def demo_listDir_def demo_files_def endswith_def
  str_of_def checkPluginFilenamePattern_def quiet_env_def

lemma check_each_walker:
  "trace_extended walker_event s (snd (check_each depth E pkg paths s))"
proof (induction paths arbitrary: s)
  case Nil
  show ?case by (simp add: extended_refl)
next
  case (Cons p ps)
  obtain r s1 where c: "checkPluginSinglePath depth E p pkg s = (r, s1)"
    by (cases "checkPluginSinglePath depth E p pkg s")
  have e: "trace_extended walker_event s s1"
    using walker_extends(1) [of s depth E p pkg] c by simp
  show ?case
  proof (cases r)
    case (Inl err)
    then show ?thesis using c e by simp
  next
    case (Inr u)
    then show ?thesis using c extended_trans [OF e Cons.IH [of s1]] by simp
  qed
qed


lemma pattern_loop_is_check_each:
  "checkPluginFilenamePattern_loop depth E filenames found s =
     (case check_each depth E None (usable_matches E filenames) s of
        (Inl e, s1) \<Rightarrow> (Inl e, s1)
      | (Inr u, s1) \<Rightarrow> (Inr (found \<or> usable_matches E filenames \<noteq> []), s1))"
proof (induction filenames arbitrary: found s)
  case Nil
  show ?case by (simp add: usable_matches_def)
next
  case (Cons filename rest)
  show ?case
  proof (cases "\<not> endswith filename ''.pyc'' \<and> isfile E filename")
    case False
    have u: "usable_matches E (filename # rest) = usable_matches E rest"
      using False by (simp add: usable_matches_def)
    have "checkPluginFilenamePattern_loop depth E (filename # rest) found s =
            checkPluginFilenamePattern_loop depth E rest found s"
      using False by auto
    then show ?thesis by (simp only: u Cons.IH)
  next
    case True
    have u: "usable_matches E (filename # rest) = filename # usable_matches E rest"
      using True by (simp add: usable_matches_def)
    obtain r s1 where c: "checkPluginSinglePath depth E filename None s = (r, s1)"
      by (cases "checkPluginSinglePath depth E filename None s")
    show ?thesis
    proof (cases r)
      case (Inl e)
      then show ?thesis using True c by (simp add: u)
    next
      case (Inr v)
      obtain r2 s2 where k: "check_each depth E None (usable_matches E rest) s1 = (r2, s2)"
        by (cases "check_each depth E None (usable_matches E rest) s1")
      have "checkPluginFilenamePattern_loop depth E (filename # rest) found s =
              checkPluginFilenamePattern_loop depth E rest True s1"
        using True c Inr by simp
      also have "\<dots> = (case r2 of Inl e \<Rightarrow> (Inl e, s2) | Inr u \<Rightarrow> (Inr True, s2))"
        by (cases r2) (simp_all add: Cons.IH k)
      finally show ?thesis
        using c Inr k by (cases r2) (simp_all add: u)
    qed
  qed
qed

subsection \<open>The new-code signal\<close>

text \<open>
  Claim C6, as stated, at the file \<open>plug.py\<close> of the project, checked by
  \<open>checkPluginSinglePath\<close> with nothing cached: the module is built for the first
  time, the Builder reports it as added, and no signal is raised.
\<close>

theorem new_code_signal_counterexample:
  "getImportedModuleByNameAndPath quiet_env demo_state ''plug'' ''/src/plug.py'' = None
   \<and> snd (buildModule quiet_env ''/src/plug.py'' ''plug'' False) = True
   \<and> fst (checkPluginSinglePath (Suc (Suc 0)) quiet_env ''/src/plug.py'' None demo_state)
       = Inr ()
   \<and> trace (snd (checkPluginSinglePath (Suc (Suc 0)) quiet_env ''/src/plug.py'' None demo_state))
       = [OnModuleRecursion ''/src/plug.py'' ''plug'' ''py'' None None,
          BuildModule ''/src/plug.py'' ''plug'' False,
          AddRootModule ''plug'']
   \<and> signals (snd (checkPluginSinglePath (Suc (Suc 0)) quiet_env ''/src/plug.py'' None
                     demo_state)) = []"
  by (simp add: demo_eval walker_eval signals_def is_signal_def)

text \<open>
  Claim C6, amended.  When \<open>recurseTo\<close> builds a module (a cache miss on which the
  plugin hook does not raise), the signal is raised once, with the tag
  \<open>new_code\<close>, the module's source reference and the inclusion reason, if the
  Builder reports the module as added and the caller passed a signal function, and not
  at all otherwise.  \<open>checkPluginSinglePath\<close> passes none: whatever it builds, at
  any depth of the package tree, the signals are those raised before.
\<close>

theorem new_code_signal:
  "(getImportedModuleByNameAndPath E s name filename = None
      \<and> onModuleRecursion E filename name kind importer
            source_ref = None
    \<longrightarrow> signals (snd (recurseTo E signal_change name filename kind
                       importer source_ref reason s)) =
          signals s
            @ (if snd (buildModule E filename name (kind = ''extension''))
                  \<and> signal_change
               then [SignalChange ''new_code''
                       (getSourceReference
                          (fst (buildModule E filename name
                                  (kind = ''extension''))))
                       reason]
               else []))
   \<and> signals (snd (checkPluginSinglePath depth E plugin_filename module_package s)) = signals s"
proof (intro conjI impI)
  assume a: "getImportedModuleByNameAndPath E s name filename = None
      \<and> onModuleRecursion E filename name kind importer
            source_ref = None"
  then have miss: "getImportedModuleByNameAndPath E s name filename = None"
    by blast
  show "signals (snd (recurseTo E signal_change name filename kind
                       importer source_ref reason s)) =
          signals s
            @ (if snd (buildModule E filename name (kind = ''extension''))
                  \<and> signal_change
               then [SignalChange ''new_code''
                       (getSourceReference
                          (fst (buildModule E filename name
                                  (kind = ''extension''))))
                       reason]
               else [])"
    using a recurseTo_miss_trace [OF miss, of signal_change kind importer
                                   source_ref reason]
    by (simp add: signals_def is_signal_def)
next
  have "trace_extended walker_event s
          (snd (checkPluginSinglePath depth E plugin_filename module_package s))"
    by (rule walker_extends(1))
  then show "signals (snd (checkPluginSinglePath depth E plugin_filename module_package s))
               = signals s"
    unfolding signals_def
    by (rule extended_filter) (simp add: walker_event_def)
qed

text \<open>The same first build with and without a signal function, and through the
  walker.\<close>

theorem new_code_signal_witness:
  "signals (snd (recurseTo demo_env True ''wanted'' ''/src/wanted.py'' ''py'' (Some ''main'')
                   (Some ''/src/main.py:wanted'') ''requested'' demo_state))
     = [SignalChange ''new_code'' ''/src/wanted.py:1'' ''requested'']
   \<and> signals (snd (recurseTo demo_env False ''wanted'' ''/src/wanted.py'' ''py'' (Some ''main'')
                   (Some ''/src/main.py:wanted'') ''requested'' demo_state)) = []
   \<and> signals (snd (checkPluginSinglePath (Suc (Suc 0)) demo_env ''/src/plug.py'' None
                     demo_state)) = []"
  using new_code_signal [where E = demo_env and s = demo_state and name = "''wanted''"
          and filename = "''/src/wanted.py''" and kind = "''py''"
          and importer = "Some ''main''" and source_ref = "Some ''/src/main.py:wanted''"
          and signal_change = True and reason = "''requested''" and depth = "Suc (Suc 0)"
          and plugin_filename = "''/src/plug.py''" and module_package = None]
    new_code_signal [where E = demo_env and s = demo_state and name = "''wanted''"
          and filename = "''/src/wanted.py''" and kind = "''py''"
          and importer = "Some ''main''" and source_ref = "Some ''/src/main.py:wanted''"
          and signal_change = False and reason = "''requested''" and depth = "Suc (Suc 0)"
          and plugin_filename = "''/src/plug.py''" and module_package = None]
  by (simp add: demo_eval walker_eval signals_def is_signal_def)

subsection \<open>The children of an included package\<close>








































subsection \<open>Patterns of file names\<close>

text \<open>
  Claim C9.  For a pattern that is not itself a directory (the assertion of the
  function), \<open>checkPluginFilenamePattern\<close> hands the matches of the pattern that
  are plain files and do not end in \<open>.pyc\<close> to the single-path check, in the order
  of the expansion and up to the first check that raises, and then warns that nothing
  matched exactly when there is no such match.  The number of these warnings in the
  trace grows by one when there is no usable match and stays as it is otherwise; with
  no usable match, and so with no match at all, the function returns after the
  warning alone: nothing is checked, built or registered.
\<close>

theorem pattern_check:
  assumes "\<not> isdir E pattern"
  shows "checkPluginFilenamePattern depth E pattern s =
           (case check_each depth E None (usable_matches E (iglob E pattern))
                   (if isShowInclusion (Options E)
                    then emit (LogInfo (''Checking plug-in pattern '' @ quoted pattern @ '':'')) s
                    else s) of
              (Inl e, s2) \<Rightarrow> (Inl e, s2)
            | (Inr u, s2) \<Rightarrow>
               (Inr (),
                if usable_matches E (iglob E pattern) = []
                then emit (LogWarning (''Didn't match any files against pattern ''
                                       @ quoted pattern @ ''.'')) s2
                else s2))
         \<and> no_match_warnings (snd (checkPluginFilenamePattern depth E pattern s)) =
             no_match_warnings s
               + (if usable_matches E (iglob E pattern) = [] then 1 else 0)
         \<and> (usable_matches E (iglob E pattern) = []
            \<longrightarrow> checkPluginFilenamePattern depth E pattern s =
                  (Inr (),
                   emit (LogWarning (''Didn't match any files against pattern ''
                                     @ quoted pattern @ ''.''))
                     (if isShowInclusion (Options E)
                      then emit (LogInfo (''Checking plug-in pattern '' @ quoted pattern
                                          @ '':'')) s
                      else s)))"
proof -
  let ?s1 = "if isShowInclusion (Options E)
             then emit (LogInfo (''Checking plug-in pattern '' @ quoted pattern @ '':'')) s
             else s"
  let ?usable = "usable_matches E (iglob E pattern)"
  let ?w = "LogWarning (''Didn't match any files against pattern '' @ quoted pattern @ ''.'')"
  obtain r s2 where c: "check_each depth E None ?usable ?s1 = (r, s2)"
    by (cases "check_each depth E None ?usable ?s1")
  have eq: "checkPluginFilenamePattern depth E pattern s =
              (case r of Inl e \<Rightarrow> (Inl e, s2)
               | Inr u \<Rightarrow> (Inr (), if ?usable = [] then emit ?w s2 else s2))"
    using assms c
    by (cases r) (simp_all add: checkPluginFilenamePattern_def pattern_loop_is_check_each Let_def)
  have n1: "no_match_warnings ?s1 = no_match_warnings s"
    by (simp add: no_match_warnings_def is_no_match_warning_def)
  have "trace_extended walker_event ?s1 (snd (check_each depth E None ?usable ?s1))"
    by (rule check_each_walker)
  then have "filter is_no_match_warning (trace s2) = filter is_no_match_warning (trace ?s1)"
    using c by (intro extended_filter [where P = walker_event]) (simp_all add: walker_event_def)
  then have n2: "no_match_warnings s2 = no_match_warnings s"
    using n1 by (simp add: no_match_warnings_def)
  have w: "no_match_warnings (emit ?w s2) = no_match_warnings s2 + 1"
    by (simp add: no_match_warnings_def is_no_match_warning_def)
  have r_ok: "?usable = [] \<Longrightarrow> r = Inr () \<and> s2 = ?s1"
    using c by simp
  have first: "checkPluginFilenamePattern depth E pattern s =
           (case check_each depth E None ?usable ?s1 of
              (Inl e, s2) \<Rightarrow> (Inl e, s2)
            | (Inr u, s2) \<Rightarrow> (Inr (), if ?usable = [] then emit ?w s2 else s2))"
    using eq c by simp
  have second: "no_match_warnings (snd (checkPluginFilenamePattern depth E pattern s)) =
             no_match_warnings s + (if ?usable = [] then 1 else 0)"
  proof (cases "?usable = []")
    case True
    then show ?thesis using eq r_ok [OF True] n2 w by simp
  next
    case False
    then show ?thesis using eq n2 by (cases r) simp_all
  qed
  have third: "?usable = [] \<longrightarrow>
                 checkPluginFilenamePattern depth E pattern s = (Inr (), emit ?w ?s1)"
    using eq r_ok by simp
  show ?thesis using first second third by blast
qed

text \<open>A pattern without match, a pattern that matches a directory only, and a
  pattern that matches a source file and a bytecode file.\<close>

theorem pattern_check_witness:
  "trace (snd (checkPluginFilenamePattern (Suc (Suc 0)) quiet_env ''/src/nothing*'' demo_state))
     = [LogWarning ''Didn't match any files against pattern '/src/nothing*'.'']
   \<and> checkPluginFilenamePattern (Suc (Suc 0)) quiet_env ''/src/pkg*'' demo_state
     = (Inr (), emit (LogWarning ''Didn't match any files against pattern '/src/pkg*'.'')
                  demo_state)
   \<and> usable_matches quiet_env (iglob quiet_env ''/src/plug*'') = [''/src/plug.py'']
   \<and> trace (snd (checkPluginFilenamePattern (Suc (Suc 0)) quiet_env ''/src/plug*'' demo_state))
     = [OnModuleRecursion ''/src/plug.py'' ''plug'' ''py'' None None,
        BuildModule ''/src/plug.py'' ''plug'' False,
        AddRootModule ''plug'']"
proof -
  have a: "\<not> isdir quiet_env ''/src/nothing*''"
    by (simp add: quiet_env_def demo_env_def demo_dirs_def)
  have b: "\<not> isdir quiet_env ''/src/pkg*''"
    by (simp add: quiet_env_def demo_env_def demo_dirs_def)
  have c: "\<not> isdir quiet_env ''/src/plug*''"
    by (simp add: quiet_env_def demo_env_def demo_dirs_def)
  show ?thesis
    using pattern_check [OF a, of "Suc (Suc 0)" demo_state]
      pattern_check [OF b, of "Suc (Suc 0)" demo_state]
      pattern_check [OF c, of "Suc (Suc 0)" demo_state]
    by (simp add: demo_eval walker_eval usable_matches_def)
qed

end
